theory Spec2Isabelle
  imports Main "HOL-Library.Sublist"
begin

section \<open>Cloud connector objects (vm_manager/cloud/connector/objects.py)\<close>

text \<open>
  The internal status vocabularies \<open>ServerStatus\<close> and \<open>VolumeStatus\<close>. Both are plain
  Python \<open>Enum\<close> classes; the constructors carry a prefix because the two classes share
  member names.
\<close>

datatype ServerStatus =
    SS_UNKNOWN | SS_ERROR | SS_DELETED
  | SS_ACTIVE | SS_BUILD | SS_REBUILD | SS_RESIZE | SS_VERIFY_RESIZE | SS_MIGRATING
  | SS_RESCUE | SS_REVERT_RESIZE | SS_SHELVED | SS_SHELVED_OFFLOADED | SS_SOFT_DELETED
  | SS_PAUSED | SS_SUSPENDED | SS_SHUTOFF | SS_REBOOT | SS_HARD_REBOOT | SS_PASSWORD

datatype VolumeStatus =
    VS_UNKNOWN
  | VS_CREATING | VS_AVAILABLE | VS_IN_USE | VS_DELETING
  | VS_ERROR | VS_ERROR_DELETING | VS_ERROR_MANAGING | VS_ERROR_RESTORING
  | VS_ERROR_BACKING_UP | VS_ERROR_EXTENDING
  | VS_MANAGING | VS_ATTACHING | VS_DETACHING | VS_MAINTENANCE | VS_RESTORING_BACKUP
  | VS_RESERVED | VS_AWAITING_TRANSFER | VS_BACKING_UP | VS_DOWNLOADING | VS_UPLOADING
  | VS_RETYPING | VS_EXTENDING

text \<open>
  A value that can be handed to \<open>StatusMapper.get_status\<close>: either a Python \<open>str\<close>
  (what the provider's client library stores in the \<open>status\<close> attribute of a server or
  volume) or a member of the remote-status \<open>Enum\<close> class \<open>'s\<close>. A plain \<open>Enum\<close> member
  compares by identity, so it is never equal to a \<open>str\<close>; the two constructors being
  distinct is exactly that.
\<close>

datatype 's py_key = Py_str string | Py_member 's

text \<open>
  \<open>StatusMapper\<close>: the dictionary \<open>_status_mapping\<close> (an association list, keys as they
  are written in the source) and \<open>_default_value\<close>.
\<close>

record ('s, 't) StatusMapper =
  status_mapping :: "('s py_key \<times> 't) list"
  default_value :: 't

definition get_mapped_status :: "('s, 't) StatusMapper \<Rightarrow> 's py_key \<Rightarrow> 't option" where
  "get_mapped_status m status = map_of (status_mapping m) status"

definition get_default_value :: "('s, 't) StatusMapper \<Rightarrow> 't" where
  "get_default_value m = default_value m"

text \<open>
  \<open>value if value else default\<close>: \<open>None\<close> is falsy; every member of a plain \<open>Enum\<close> is
  truthy (also the one whose value is \<open>0\<close>). The mapper is built for the two tables of
  the OpenStack connector only, whose values are such members, so what the table gives
  is what is returned.
\<close>

definition get_status :: "('s, 't) StatusMapper \<Rightarrow> 's py_key \<Rightarrow> 't" where
  "get_status m status =
     (case get_mapped_status m status of
        None \<Rightarrow> get_default_value m
      | Some v \<Rightarrow> v)"

definition StatusMapper_create :: "('s py_key \<times> 't) list \<Rightarrow> 't \<Rightarrow> ('s, 't) StatusMapper" where
  "StatusMapper_create mapping dflt = \<lparr>status_mapping = mapping, default_value = dflt\<rparr>"


section \<open>The OpenStack connector (vm_manager/cloud/connector/openstack.py)\<close>

datatype OpenStackServerStatus =
    OSS_UNKNOWN | OSS_ERROR | OSS_DELETED
  | OSS_ACTIVE | OSS_BUILD | OSS_REBUILD | OSS_RESIZE | OSS_VERIFY_RESIZE | OSS_MIGRATING
  | OSS_RESCUE | OSS_REVERT_RESIZE | OSS_SHELVED | OSS_SHELVED_OFFLOADED | OSS_SOFT_DELETED
  | OSS_PAUSED | OSS_SUSPENDED | OSS_SHUTOFF | OSS_REBOOT | OSS_HARD_REBOOT | OSS_PASSWORD

text \<open>The \<open>value\<close> of each member of \<open>OpenStackServerStatus\<close>: the provider's status string.\<close>

fun OpenStackServerStatus_value :: "OpenStackServerStatus \<Rightarrow> string" where
  "OpenStackServerStatus_value OSS_UNKNOWN = ''UNKNOWN''"
| "OpenStackServerStatus_value OSS_ERROR = ''ERROR''"
| "OpenStackServerStatus_value OSS_DELETED = ''DELETED''"
| "OpenStackServerStatus_value OSS_ACTIVE = ''ACTIVE''"
| "OpenStackServerStatus_value OSS_BUILD = ''BUILD''"
| "OpenStackServerStatus_value OSS_REBUILD = ''REBUILD''"
| "OpenStackServerStatus_value OSS_RESIZE = ''RESIZE''"
| "OpenStackServerStatus_value OSS_VERIFY_RESIZE = ''VERIFY_RESIZE''"
| "OpenStackServerStatus_value OSS_MIGRATING = ''MIGRATING''"
| "OpenStackServerStatus_value OSS_RESCUE = ''RESCUE''"
| "OpenStackServerStatus_value OSS_REVERT_RESIZE = ''REVERT_RESIZE''"
| "OpenStackServerStatus_value OSS_SHELVED = ''SHELVED''"
| "OpenStackServerStatus_value OSS_SHELVED_OFFLOADED = ''SHELVED_OFFLOADED''"
| "OpenStackServerStatus_value OSS_SOFT_DELETED = ''SOFT_DELETED''"
| "OpenStackServerStatus_value OSS_PAUSED = ''PAUSED''"
| "OpenStackServerStatus_value OSS_SUSPENDED = ''SUSPENDED''"
| "OpenStackServerStatus_value OSS_SHUTOFF = ''SHUTOFF''"
| "OpenStackServerStatus_value OSS_REBOOT = ''REBOOT''"
| "OpenStackServerStatus_value OSS_HARD_REBOOT = ''HARD_REBOOT''"
| "OpenStackServerStatus_value OSS_PASSWORD = ''PASSWORD''"

definition OS_SERVER_STATUS_MAPPING :: "(OpenStackServerStatus py_key \<times> ServerStatus) list" where
  "OS_SERVER_STATUS_MAPPING =
    [(Py_member OSS_UNKNOWN, SS_UNKNOWN),
     (Py_member OSS_ERROR, SS_ERROR),
     (Py_member OSS_DELETED, SS_DELETED),
     (Py_member OSS_ACTIVE, SS_ACTIVE),
     (Py_member OSS_BUILD, SS_BUILD),
     (Py_member OSS_REBUILD, SS_REBUILD),
     (Py_member OSS_RESIZE, SS_RESIZE),
     (Py_member OSS_VERIFY_RESIZE, SS_VERIFY_RESIZE),
     (Py_member OSS_MIGRATING, SS_MIGRATING),
     (Py_member OSS_RESCUE, SS_RESCUE),
     (Py_member OSS_REVERT_RESIZE, SS_REVERT_RESIZE),
     (Py_member OSS_SHELVED, SS_SHELVED),
     (Py_member OSS_SHELVED_OFFLOADED, SS_SHELVED_OFFLOADED),
     (Py_member OSS_SOFT_DELETED, SS_SOFT_DELETED),
     (Py_member OSS_PAUSED, SS_PAUSED),
     (Py_member OSS_SUSPENDED, SS_SUSPENDED),
     (Py_member OSS_SHUTOFF, SS_SHUTOFF),
     (Py_member OSS_REBOOT, SS_REBOOT),
     (Py_member OSS_HARD_REBOOT, SS_HARD_REBOOT),
     (Py_member OSS_PASSWORD, SS_PASSWORD)]"

definition OS_SERVER_STATUS_MAPPER :: "(OpenStackServerStatus, ServerStatus) StatusMapper" where
  "OS_SERVER_STATUS_MAPPER = StatusMapper_create OS_SERVER_STATUS_MAPPING SS_UNKNOWN"

datatype OpenStackVolumeStatus =
    OVS_CREATING | OVS_AVAILABLE | OVS_IN_USE | OVS_DELETING
  | OVS_ERROR | OVS_ERROR_DELETING | OVS_ERROR_MANAGING | OVS_ERROR_RESTORING
  | OVS_ERROR_BACKING_UP | OVS_ERROR_EXTENDING
  | OVS_MANAGING | OVS_ATTACHING | OVS_DETACHING | OVS_MAINTENANCE | OVS_RESTORING_BACKUP
  | OVS_RESERVED | OVS_AWAITING_TRANSFER | OVS_BACKING_UP | OVS_DOWNLOADING | OVS_UPLOADING
  | OVS_RETYPING | OVS_EXTENDING

fun OpenStackVolumeStatus_value :: "OpenStackVolumeStatus \<Rightarrow> string" where
  "OpenStackVolumeStatus_value OVS_CREATING = ''creating''"
| "OpenStackVolumeStatus_value OVS_AVAILABLE = ''available''"
| "OpenStackVolumeStatus_value OVS_IN_USE = ''in-use''"
| "OpenStackVolumeStatus_value OVS_DELETING = ''deleting''"
| "OpenStackVolumeStatus_value OVS_ERROR = ''error''"
| "OpenStackVolumeStatus_value OVS_ERROR_DELETING = ''error_deleting''"
| "OpenStackVolumeStatus_value OVS_ERROR_MANAGING = ''error_managing''"
| "OpenStackVolumeStatus_value OVS_ERROR_RESTORING = ''error_restoring''"
| "OpenStackVolumeStatus_value OVS_ERROR_BACKING_UP = ''error_backing-up''"
| "OpenStackVolumeStatus_value OVS_ERROR_EXTENDING = ''error_extending''"
| "OpenStackVolumeStatus_value OVS_MANAGING = ''managing''"
| "OpenStackVolumeStatus_value OVS_ATTACHING = ''attaching''"
| "OpenStackVolumeStatus_value OVS_DETACHING = ''detaching''"
| "OpenStackVolumeStatus_value OVS_MAINTENANCE = ''maintenance''"
| "OpenStackVolumeStatus_value OVS_RESTORING_BACKUP = ''restoring-backup''"
| "OpenStackVolumeStatus_value OVS_RESERVED = ''reserved''"
| "OpenStackVolumeStatus_value OVS_AWAITING_TRANSFER = ''awaiting-transfer''"
| "OpenStackVolumeStatus_value OVS_BACKING_UP = ''backing-up''"
| "OpenStackVolumeStatus_value OVS_DOWNLOADING = ''downloading''"
| "OpenStackVolumeStatus_value OVS_UPLOADING = ''uploading''"
| "OpenStackVolumeStatus_value OVS_RETYPING = ''retyping''"
| "OpenStackVolumeStatus_value OVS_EXTENDING = ''extending''"

definition OS_VOLUME_STATUS_MAPPING :: "(OpenStackVolumeStatus py_key \<times> VolumeStatus) list" where
  "OS_VOLUME_STATUS_MAPPING =
    [(Py_member OVS_CREATING, VS_CREATING),
     (Py_member OVS_AVAILABLE, VS_AVAILABLE),
     (Py_member OVS_IN_USE, VS_IN_USE),
     (Py_member OVS_DELETING, VS_DELETING),
     (Py_member OVS_ERROR, VS_ERROR),
     (Py_member OVS_ERROR_DELETING, VS_ERROR_DELETING),
     (Py_member OVS_ERROR_MANAGING, VS_ERROR_MANAGING),
     (Py_member OVS_ERROR_RESTORING, VS_ERROR_RESTORING),
     (Py_member OVS_ERROR_BACKING_UP, VS_ERROR_BACKING_UP),
     (Py_member OVS_ERROR_EXTENDING, VS_ERROR_EXTENDING),
     (Py_member OVS_MANAGING, VS_MANAGING),
     (Py_member OVS_ATTACHING, VS_ATTACHING),
     (Py_member OVS_DETACHING, VS_DETACHING),
     (Py_member OVS_MAINTENANCE, VS_MAINTENANCE),
     (Py_member OVS_RESTORING_BACKUP, VS_RESTORING_BACKUP),
     (Py_member OVS_RESERVED, VS_RESERVED),
     (Py_member OVS_AWAITING_TRANSFER, VS_AWAITING_TRANSFER),
     (Py_member OVS_BACKING_UP, VS_BACKING_UP),
     (Py_member OVS_DOWNLOADING, VS_DOWNLOADING),
     (Py_member OVS_UPLOADING, VS_UPLOADING),
     (Py_member OVS_RETYPING, VS_RETYPING),
     (Py_member OVS_EXTENDING, VS_EXTENDING)]"

definition OS_VOLUME_STATUS_MAPPER :: "(OpenStackVolumeStatus, VolumeStatus) StatusMapper" where
  "OS_VOLUME_STATUS_MAPPER = StatusMapper_create OS_VOLUME_STATUS_MAPPING VS_UNKNOWN"

text \<open>
  Exceptions. \<open>NovaNotFound\<close> and \<open>CinderNotFound\<close> are the \<open>NotFound\<close> classes of the two
  client libraries, subclasses of the respective \<open>ClientException\<close>;
  \<open>OtherException\<close> stands for anything that is not a \<open>ClientException\<close>.
\<close>

datatype exn =
    NovaNotFound | NovaClientException
  | CinderNotFound | CinderClientException
  | CloudConnectorError
  | NameError | AttributeError | ValueError | RuntimeWarning
  | DoesNotExist | OtherException

text \<open>
  The provider's objects as the client libraries return them (only the attributes the
  connector reads), and the outcome of each client call the connector makes: it returns
  or raises.
\<close>

record NovaServer =
  nova_status :: string

record CinderVolume =
  cinder_status :: string

record nova_client =
  servers_get :: "exn + NovaServer"
  servers_delete :: "exn + unit"

record cinder_client =
  volumes_get :: "exn + CinderVolume"
  volumes_delete :: "exn + unit"

definition OpenStack_get_server_status :: "nova_client \<Rightarrow> exn + ServerStatus" where
  "OpenStack_get_server_status nova =
     (case servers_get nova of
        Inl e \<Rightarrow> Inl e
      | Inr nova_server \<Rightarrow>
          Inr (get_status OS_SERVER_STATUS_MAPPER (Py_str (nova_status nova_server))))"

definition OpenStack_get_volume_status :: "cinder_client \<Rightarrow> exn + VolumeStatus" where
  "OpenStack_get_volume_status cinder =
     (case volumes_get cinder of
        Inl e \<Rightarrow> Inl e
      | Inr cinder_volume \<Rightarrow>
          Inr (get_status OS_VOLUME_STATUS_MAPPER (Py_str (cinder_status cinder_volume))))"

text \<open>
  \<open>try: ... except NotFound: ... except ClientException: ...\<close>: the clauses are tried in
  order, and an exception that matches none of them propagates.
\<close>

definition OpenStack_is_server_created :: "nova_client \<Rightarrow> exn + bool option" where
  "OpenStack_is_server_created nova =
     (case servers_get nova of
        Inr _ \<Rightarrow> Inr (Some True)
      | Inl e \<Rightarrow>
          if e = NovaNotFound then Inr (Some False)
          else if e = NovaClientException then Inr None
          else Inl e)"

definition OpenStack_delete_server :: "nova_client \<Rightarrow> exn + bool option" where
  "OpenStack_delete_server nova =
     (case (case servers_get nova of
              Inl e \<Rightarrow> Inl e
            | Inr nova_server \<Rightarrow> servers_delete nova) of
        Inr _ \<Rightarrow> Inr (Some True)
      | Inl e \<Rightarrow>
          if e = NovaNotFound then Inr (Some True)
          else if e = NovaClientException then Inr None
          else Inl e)"

definition OpenStack_is_volume_created :: "cinder_client \<Rightarrow> exn + bool option" where
  "OpenStack_is_volume_created cinder =
     (case volumes_get cinder of
        Inr _ \<Rightarrow> Inr (Some True)
      | Inl e \<Rightarrow>
          if e = CinderNotFound then Inr (Some False)
          else if e = CinderClientException then Inr None
          else Inl e)"

text \<open>The last \<open>except\<close> clause of \<open>delete_volume\<close> has no \<open>return\<close>: the method returns \<open>None\<close>.\<close>

definition OpenStack_delete_volume :: "cinder_client \<Rightarrow> exn + bool option" where
  "OpenStack_delete_volume cinder =
     (case (case volumes_get cinder of
              Inl e \<Rightarrow> Inl e
            | Inr cinder_volume \<Rightarrow> volumes_delete cinder) of
        Inr _ \<Rightarrow> Inr (Some True)
      | Inl e \<Rightarrow>
          if e = CinderNotFound then Inr (Some True)
          else if e = CinderClientException then Inr None
          else Inl e)"


section \<open>The local system of record (vm_manager.models, vm_manager.constants)\<close>

text \<open>
  \<open>datetime.now(utc)\<close> reads a clock; a point in time is a number of seconds, and a
  nullable timestamp column is a \<open>time option\<close>.
\<close>

type_synonym time = int

datatype wf_result = WF_CONTINUE | WF_SUCCESS | WF_FAIL | WF_RETRY | WF_SKIP

datatype exp_stage =
  EXP_EXPIRING | EXP_EXPIRY_COMPLETED | EXP_EXPIRY_FAILED | EXP_EXPIRY_FAILED_RETRYABLE

datatype vm_state =
    NO_VM | VM_WAITING | VM_CREATING | VM_OKAY | VM_RESIZING | VM_SUPERSIZED
  | VM_SHELVED | VM_ERROR | VM_MISSING

record Instance =
  instance_id :: string
  guac_connection :: "nat option"
  instance_marked_for_deletion :: "time option"
  instance_deleted :: "time option"
  instance_error_message :: "string option"

record Volume =
  volume_id :: string
  backup_id :: "string option"
  archived_at :: "time option"
  volume_marked_for_deletion :: "time option"
  volume_deleted :: "time option"
  volume_error_message :: "string option"

record VMStatus =
  status :: vm_state
  status_progress :: nat
  status_message :: string

record Expiration =
  stage :: exp_stage
  stage_date :: time

text \<open>
  The retry counts and wait times of \<open>vm_manager.constants\<close> and \<open>BACKUP_LIFETIME\<close> of the
  settings: their values are not among the sources, so every workflow step takes them as
  a parameter.
\<close>

record constants =
  INSTANCE_DELETION_RETRY_WAIT_TIME :: int
  INSTANCE_DELETION_RETRY_COUNT :: int
  VOLUME_DELETION_RETRY_WAIT_TIME :: int
  VOLUME_DELETION_RETRY_COUNT :: int
  BACKUP_DELETION_RETRY_WAIT_TIME :: int
  BACKUP_DELETION_RETRY_COUNT :: int
  INSTANCE_CHECK_SHUTOFF_RETRY_WAIT_TIME :: int
  INSTANCE_CHECK_SHUTOFF_RETRY_COUNT :: int
  ARCHIVE_POLL_SECONDS :: int
  ARCHIVE_WAIT_SECONDS :: int
  BACKUP_LIFETIME :: int

text \<open>
  What the delay scheduler is asked to run later: the callback with its arguments. The
  instance and the volume of the run are the ones of the store, so a task carries the
  remaining arguments only. \<open>func\<close>, \<open>func_args\<close> of the shutoff check are a task.
\<close>

datatype delay = Seconds int | Minutes int

datatype task =
    T_check_instance_is_shutoff_and_delete int task
  | T_dispose_volume_once_instance_is_deleted bool int
  | T_wait_until_volume_is_deleted int
  | T_wait_until_backup_is_deleted int
  | T_wait_for_backup string time

text \<open>
  What a step does to the outside, in the order it does it: the calls to the cloud
  connector and the rows it saves (with the row as saved).
\<close>

datatype event =
    Cloud_is_server_created | Cloud_get_server_status | Cloud_stop_server
  | Cloud_check_shutdown_status | Cloud_delete_server
  | Cloud_is_volume_created | Cloud_get_volume_status | Cloud_delete_volume
  | Cloud_create_volume_backup | Cloud_is_backup_created | Cloud_get_backup_status
  | Cloud_delete_volume_backup | Cloud_get_volume_zone | Cloud_get_volume_list
  | Guacamole_connection_deleted
  | Saved_instance Instance | Saved_volume Volume | Saved_vm_status VMStatus
  | Saved_expiration Expiration

text \<open>
  The cloud connector as a workflow step sees it: what each call of the
  \<open>CloudConnector\<close> interface answers during the step, with the interface's return
  types (\<open>Optional[bool]\<close> for the existence and delete calls, a status for the status
  calls). \<open>create_volume_backup\<close> returns the backup's id or raises.
  \<open>cloud_check_shutdown_status\<close> is the answer of \<open>instance.check_shutdown_status()\<close>,
  a method of the model classes that asks the cloud.
\<close>

record CloudVolume =
  cv_id :: string
  cv_name :: "string option"
  cv_metadata :: "(string \<rightharpoonup> string) option"

record cloud =
  cloud_is_server_created :: "bool option"
  cloud_get_server_status :: ServerStatus
  cloud_check_shutdown_status :: bool
  cloud_delete_server :: "bool option"
  cloud_is_volume_created :: "bool option"
  cloud_get_volume_status :: VolumeStatus
  cloud_delete_volume :: "bool option"
  cloud_create_volume_backup :: "exn + string"
  cloud_is_backup_created :: "bool option"
  cloud_get_backup_status :: VolumeStatus
  cloud_delete_volume_backup :: "bool option"
  cloud_get_volume_zone :: string
  cloud_get_volume_list :: "CloudVolume list option"

text \<open>
  The state a delete/archive run works on: the rows of the instance, of its boot volume,
  of the VMStatus of that volume and of the two expirations the volume owns
  (\<open>volume.expiration\<close>, \<open>volume.backup_expiration\<close>; \<open>None\<close> when the foreign key is
  null), the scheduler's queue, the trace of events, and the clock.
\<close>

record store =
  db_instance :: Instance
  db_volume :: Volume
  db_vm_status :: "VMStatus option"
  db_expiration :: "Expiration option"
  db_backup_expiration :: "Expiration option"
  scheduled :: "(delay \<times> task) list"
  trace :: "event list"
  now :: time

definition emit :: "event \<Rightarrow> store \<Rightarrow> store" where
  "emit e st = st\<lparr>trace := trace st @ [e]\<rparr>"

definition enqueue_in :: "delay \<Rightarrow> task \<Rightarrow> store \<Rightarrow> store" where
  "enqueue_in d t st = st\<lparr>scheduled := scheduled st @ [(d, t)]\<rparr>"

definition save_instance :: "Instance \<Rightarrow> store \<Rightarrow> store" where
  "save_instance i st = emit (Saved_instance i) (st\<lparr>db_instance := i\<rparr>)"

definition save_volume :: "Volume \<Rightarrow> store \<Rightarrow> store" where
  "save_volume v st = emit (Saved_volume v) (st\<lparr>db_volume := v\<rparr>)"

definition save_vm_status :: "VMStatus \<Rightarrow> store \<Rightarrow> store" where
  "save_vm_status vs st = emit (Saved_vm_status vs) (st\<lparr>db_vm_status := Some vs\<rparr>)"

text \<open>
  Modelled from the spec: \<open>Instance.error(msg, gone)\<close> and \<open>Volume.error(msg)\<close> of
  vm_manager.models, which is not among the sources. "Instance/Volume.error_message
  carries the durable diagnostic"; with \<open>gone=True\<close> the instance whose server is
  confirmed absent is "marked deleted immediately". Both save the row.
\<close>

definition instance_error :: "string \<Rightarrow> bool \<Rightarrow> store \<Rightarrow> store" where
  "instance_error msg gone st =
     (let i = (db_instance st)\<lparr>instance_error_message := Some msg\<rparr>
      in save_instance (if gone then i\<lparr>instance_deleted := Some (now st)\<rparr> else i) st)"

definition volume_error :: "string \<Rightarrow> store \<Rightarrow> store" where
  "volume_error msg st = save_volume ((db_volume st)\<lparr>volume_error_message := Some msg\<rparr>) st"

text \<open>\<open>str(status)\<close> of a member of \<open>ServerStatus\<close>, as the f-strings print it.\<close>

fun ServerStatus_str :: "ServerStatus \<Rightarrow> string" where
  "ServerStatus_str SS_UNKNOWN = ''ServerStatus.UNKNOWN''"
| "ServerStatus_str SS_ERROR = ''ServerStatus.ERROR''"
| "ServerStatus_str SS_DELETED = ''ServerStatus.DELETED''"
| "ServerStatus_str SS_ACTIVE = ''ServerStatus.ACTIVE''"
| "ServerStatus_str SS_BUILD = ''ServerStatus.BUILD''"
| "ServerStatus_str SS_REBUILD = ''ServerStatus.REBUILD''"
| "ServerStatus_str SS_RESIZE = ''ServerStatus.RESIZE''"
| "ServerStatus_str SS_VERIFY_RESIZE = ''ServerStatus.VERIFY_RESIZE''"
| "ServerStatus_str SS_MIGRATING = ''ServerStatus.MIGRATING''"
| "ServerStatus_str SS_RESCUE = ''ServerStatus.RESCUE''"
| "ServerStatus_str SS_REVERT_RESIZE = ''ServerStatus.REVERT_RESIZE''"
| "ServerStatus_str SS_SHELVED = ''ServerStatus.SHELVED''"
| "ServerStatus_str SS_SHELVED_OFFLOADED = ''ServerStatus.SHELVED_OFFLOADED''"
| "ServerStatus_str SS_SOFT_DELETED = ''ServerStatus.SOFT_DELETED''"
| "ServerStatus_str SS_PAUSED = ''ServerStatus.PAUSED''"
| "ServerStatus_str SS_SUSPENDED = ''ServerStatus.SUSPENDED''"
| "ServerStatus_str SS_SHUTOFF = ''ServerStatus.SHUTOFF''"
| "ServerStatus_str SS_REBOOT = ''ServerStatus.REBOOT''"
| "ServerStatus_str SS_HARD_REBOOT = ''ServerStatus.HARD_REBOOT''"
| "ServerStatus_str SS_PASSWORD = ''ServerStatus.PASSWORD''"


section \<open>The delete and archive workflows (vm_manager/vm_functions/delete_vm.py)\<close>

subsection \<open>\<open>_end_delete\<close>\<close>

text \<open>
  The loop runs over \<open>[volume.expiration, volume.backup_expiration]\<close>. Its body, for
  one of the two: \<open>None\<close> is skipped; otherwise the row is read again and, when its
  stage is \<open>EXP_EXPIRING\<close>, the stage is set from the workflow result, the date is set,
  and the row is saved.
\<close>

datatype owned_expiration = The_expiration | The_backup_expiration

fun get_expiration :: "owned_expiration \<Rightarrow> store \<Rightarrow> Expiration option" where
  "get_expiration The_expiration st = db_expiration st"
| "get_expiration The_backup_expiration st = db_backup_expiration st"

fun save_expiration :: "owned_expiration \<Rightarrow> Expiration \<Rightarrow> store \<Rightarrow> store" where
  "save_expiration The_expiration e st = emit (Saved_expiration e) (st\<lparr>db_expiration := Some e\<rparr>)"
| "save_expiration The_backup_expiration e st =
     emit (Saved_expiration e) (st\<lparr>db_backup_expiration := Some e\<rparr>)"

definition end_delete_body :: "wf_result \<Rightarrow> owned_expiration \<Rightarrow> store \<Rightarrow> store" where
  "end_delete_body wf_status which st =
     (case get_expiration which st of
        None \<Rightarrow> st
      | Some expiration \<Rightarrow>
          if stage expiration = EXP_EXPIRING then
            save_expiration which
              ((if wf_status = WF_FAIL then expiration\<lparr>stage := EXP_EXPIRY_FAILED\<rparr>
                else if wf_status = WF_RETRY then
                  expiration\<lparr>stage := EXP_EXPIRY_FAILED_RETRYABLE\<rparr>
                else if wf_status = WF_SUCCESS then
                  expiration\<lparr>stage := EXP_EXPIRY_COMPLETED\<rparr>
                else expiration)\<lparr>stage_date := now st\<rparr>) st
          else st)"

definition end_delete :: "wf_result \<Rightarrow> store \<Rightarrow> wf_result \<times> store" where
  "end_delete wf_status st =
     (wf_status, fold (end_delete_body wf_status) [The_expiration, The_backup_expiration] st)"

subsection \<open>\<open>delete_instance\<close>, \<open>delete_volume\<close>\<close>

definition delete_instance :: "cloud \<Rightarrow> store \<Rightarrow> bool \<times> store" where
  "delete_instance c st =
     (let deleted = cloud_delete_server c;
          st1 = emit Cloud_delete_server st
      in if deleted = None \<or> deleted = Some False then (False, st1)
         else (True,
               save_instance
                 ((db_instance st1)\<lparr>instance_marked_for_deletion := Some (now st1)\<rparr>) st1))"

definition delete_volume :: "cloud \<Rightarrow> store \<Rightarrow> bool \<times> store" where
  "delete_volume c st =
     (let deleted = cloud_delete_volume c;
          st1 = emit Cloud_delete_volume st
      in if deleted = None \<or> deleted = Some False then (False, st1)
         else (True,
               save_volume ((db_volume st1)\<lparr>volume_deleted := Some (now st1)\<rparr>) st1))"


subsection \<open>\<open>archive_volume_worker\<close>\<close>

text \<open>
  An exception of \<open>create_volume_backup\<close> other than \<open>CloudConnectorError\<close> is not
  caught and leaves the function; what was saved before stays saved. The deadline
  handed to \<open>wait_for_backup\<close> is \<open>after_time(ARCHIVE_WAIT_SECONDS)\<close> of the cloud
  environment, taken as the Nectar environment computes it: the current time plus the
  seconds. (The method of the base class \<open>CloudEnvironment\<close> has no body.)
\<close>

definition archive_volume_worker :: "constants \<Rightarrow> cloud \<Rightarrow> store \<Rightarrow> (exn + wf_result) \<times> store" where
  "archive_volume_worker k c st =
     (let st1 = save_volume ((db_volume st)\<lparr>volume_marked_for_deletion := Some (now st)\<rparr>) st;
          volume_exist = cloud_is_volume_created c;
          st2 = emit Cloud_is_volume_created st1
      in if volume_exist = None \<or> volume_exist = Some False then
           map_prod Inr id
             (end_delete WF_SUCCESS
                (volume_error ''Cloud volume missing. Cannot be archived.'' st2))
         else
           let st3 = emit Cloud_get_volume_status st2
           in if cloud_get_volume_status c \<noteq> VS_AVAILABLE then
                map_prod Inr id (end_delete WF_RETRY st3)
              else
                let st4 = emit Cloud_create_volume_backup st3
                in case cloud_create_volume_backup c of
                     Inl e \<Rightarrow>
                       if e = CloudConnectorError then
                         map_prod Inr id
                           (end_delete WF_RETRY (volume_error ''Cinder backup failed'' st4))
                       else (Inl e, st4)
                   | Inr cloud_volume_backup_id \<Rightarrow>
                       let st5 = enqueue_in (Seconds 5)
                                   (T_wait_for_backup cloud_volume_backup_id
                                      (now st4 + ARCHIVE_WAIT_SECONDS k)) st4;
                           st6 = (case db_vm_status st5 of
                                    None \<Rightarrow> st5
                                  | Some vm_status \<Rightarrow>
                                      save_vm_status (vm_status\<lparr>status := NO_VM\<rparr>) st5)
                       in (Inr WF_CONTINUE, st6))"

subsection \<open>The polling steps\<close>

definition wait_until_volume_is_deleted ::
  "constants \<Rightarrow> cloud \<Rightarrow> int \<Rightarrow> store \<Rightarrow> wf_result \<times> store" where
  "wait_until_volume_is_deleted k c retries st =
     (let volume_exist = cloud_is_volume_created c;
          st1 = emit Cloud_is_volume_created st
      in if volume_exist = None then end_delete WF_RETRY st1
         else if volume_exist = Some False then
           end_delete WF_SUCCESS
             (save_volume ((db_volume st1)\<lparr>volume_deleted := Some (now st1)\<rparr>) st1)
         else
           let st2 = emit Cloud_get_volume_status st1
           in if cloud_get_volume_status c \<noteq> VS_DELETING then end_delete WF_RETRY st2
              else if retries > 0 then
                (WF_CONTINUE,
                 enqueue_in (Seconds (VOLUME_DELETION_RETRY_WAIT_TIME k))
                   (T_wait_until_volume_is_deleted (retries - 1)) st2)
              else
                end_delete WF_RETRY
                  (volume_error ''Ran out of retries trying to delete'' st2))"

definition wait_until_backup_is_deleted ::
  "constants \<Rightarrow> cloud \<Rightarrow> int \<Rightarrow> store \<Rightarrow> wf_result \<times> store" where
  "wait_until_backup_is_deleted k c retries st =
     (let backup_exist = cloud_is_backup_created c;
          st1 = emit Cloud_is_backup_created st
      in if backup_exist = None then end_delete WF_RETRY st1
         else if backup_exist = Some False then
           end_delete WF_SUCCESS (save_volume ((db_volume st1)\<lparr>backup_id := None\<rparr>) st1)
         else if retries > 0 then
           (WF_CONTINUE,
            enqueue_in (Seconds (BACKUP_DELETION_RETRY_WAIT_TIME k))
              (T_wait_until_backup_is_deleted (retries - 1)) st1)
         else end_delete WF_RETRY st1)"

text \<open>
  \<open>volume.set_backup_expires\<close> is a method of the model classes, not among the sources:
  \<open>wait_for_backup\<close> takes what it does to the store as the parameter
  \<open>set_backup_expires\<close>. The result of \<open>delete_volume\<close> is dropped.
\<close>

definition wait_for_backup ::
  "constants \<Rightarrow> cloud \<Rightarrow> (time \<Rightarrow> store \<Rightarrow> store) \<Rightarrow> string \<Rightarrow> time \<Rightarrow> store
     \<Rightarrow> wf_result \<times> store" where
  "wait_for_backup k c set_backup_expires backup deadline st =
     (let backup_exist = cloud_is_backup_created c;
          st1 = emit Cloud_is_backup_created st
      in if backup_exist = None \<or> backup_exist = Some False then end_delete WF_RETRY st1
         else
           let backup_status = cloud_get_backup_status c;
               st2 = emit Cloud_get_backup_status st1
           in if backup_status = VS_BACKING_UP then
                (if now st2 > deadline then end_delete WF_RETRY st2
                 else (WF_CONTINUE,
                       enqueue_in (Seconds (ARCHIVE_POLL_SECONDS k))
                         (T_wait_for_backup backup deadline) st2))
              else if backup_status = VS_AVAILABLE then
                let st3 = save_volume
                            ((db_volume st2)\<lparr>backup_id := Some backup,
                                              archived_at := Some (now st2)\<rparr>) st2;
                    st4 = set_backup_expires (now st3 + 86400 * BACKUP_LIFETIME k) st3;
                    st5 = snd (delete_volume c st4)
                in end_delete WF_SUCCESS st5
              else end_delete WF_FAIL st2)"

definition dispose_volume_once_instance_is_deleted ::
  "constants \<Rightarrow> cloud \<Rightarrow> bool \<Rightarrow> int \<Rightarrow> store \<Rightarrow> (exn + wf_result) \<times> store" where
  "dispose_volume_once_instance_is_deleted k c archive retries st =
     (let server_exist = cloud_is_server_created c;
          st1 = emit Cloud_is_server_created st
      in if server_exist = None then (Inr WF_RETRY, st1)
         else if server_exist = Some True then
           (if retries > 0 then
              (Inr WF_CONTINUE,
               enqueue_in (Minutes (INSTANCE_DELETION_RETRY_WAIT_TIME k))
                 (T_dispose_volume_once_instance_is_deleted archive (retries - 1)) st1)
            else
              (Inr WF_RETRY, instance_error ''Ran out of retries trying to delete'' False st1))
         else
           let st2 = save_instance ((db_instance st1)\<lparr>instance_deleted := Some (now st1)\<rparr>) st1
           in if archive then archive_volume_worker k c st2
              else
                (case delete_volume c st2 of
                   (True, st3) \<Rightarrow>
                     (Inr WF_CONTINUE,
                      enqueue_in (Seconds (VOLUME_DELETION_RETRY_WAIT_TIME k))
                        (T_wait_until_volume_is_deleted (VOLUME_DELETION_RETRY_COUNT k)) st3)
                 | (False, st3) \<Rightarrow> map_prod Inr id (end_delete WF_RETRY st3)))"

subsection \<open>The shutoff check and \<open>delete_vm_worker\<close>\<close>

definition check_instance_is_shutoff_and_delete ::
  "constants \<Rightarrow> cloud \<Rightarrow> int \<Rightarrow> task \<Rightarrow> store \<Rightarrow> wf_result \<times> store" where
  "check_instance_is_shutoff_and_delete k c retries func st =
     (let shutoff = cloud_check_shutdown_status c;
          st1 = emit Cloud_check_shutdown_status st
      in if \<not> shutoff \<and> retries > 0 then
           (WF_CONTINUE,
            enqueue_in (Seconds (INSTANCE_CHECK_SHUTOFF_RETRY_WAIT_TIME k))
              (T_check_instance_is_shutoff_and_delete (retries - 1) func) st1)
         else
           let st2 = (case db_vm_status st1 of
                        None \<Rightarrow> st1
                      | Some vm_status \<Rightarrow>
                          if status vm_status = VM_WAITING then
                            save_vm_status
                              (vm_status\<lparr>status_progress := 66,
                                         status_message := ''Instance shelving''\<rparr>) st1
                          else st1)
           in case delete_instance c st2 of
                (False, st3) \<Rightarrow> (WF_FAIL, st3)
              | (True, st3) \<Rightarrow>
                  (WF_CONTINUE,
                   enqueue_in (Seconds (INSTANCE_DELETION_RETRY_WAIT_TIME k)) func st3))"

definition delete_vm_worker :: "constants \<Rightarrow> cloud \<Rightarrow> bool \<Rightarrow> store \<Rightarrow> wf_result \<times> store" where
  "delete_vm_worker k c archive st =
     (let st1 = (if guac_connection (db_instance st) \<noteq> None then
                   save_instance ((db_instance st)\<lparr>guac_connection := None\<rparr>)
                     (emit Guacamole_connection_deleted st)
                 else st);
          server_exist = cloud_is_server_created c;
          st2 = emit Cloud_is_server_created st1;
          next_step = (\<lambda>s.
             (WF_CONTINUE,
              enqueue_in (Seconds (INSTANCE_CHECK_SHUTOFF_RETRY_WAIT_TIME k))
                (T_check_instance_is_shutoff_and_delete (INSTANCE_CHECK_SHUTOFF_RETRY_COUNT k)
                   (T_dispose_volume_once_instance_is_deleted archive
                      (INSTANCE_DELETION_RETRY_COUNT k))) s))
      in if server_exist = None \<or> server_exist = Some False then
           next_step (instance_error ''Nova instance is missing'' True st2)
         else
           let status = cloud_get_server_status c;
               st3 = emit Cloud_get_server_status st2
           in if status = SS_ACTIVE then next_step (emit Cloud_stop_server st3)
              else if status = SS_SHUTOFF then next_step st3
              else
                (WF_RETRY,
                 instance_error (''Nova instance state is '' @ ServerStatus_str status)
                   False st3))"

subsection \<open>\<open>delete_volume_worker\<close>, \<open>delete_backup_worker\<close>\<close>



subsection \<open>\<open>archive_expired_volume\<close>\<close>

text \<open>
  The names the module binds that hold a workflow result: the ones its
  \<open>from vm_manager.constants import ...\<close> statement lists. A name that the module does
  not bind and that is no builtin raises \<open>NameError\<close> when it is evaluated.
\<close>

definition delete_vm_imported_wf_names :: "(string \<times> wf_result) list" where
  "delete_vm_imported_wf_names =
     [(''WF_RETRY'', WF_RETRY), (''WF_SUCCESS'', WF_SUCCESS),
      (''WF_FAIL'', WF_FAIL), (''WF_CONTINUE'', WF_CONTINUE)]"

definition load_global :: "string \<Rightarrow> exn + wf_result" where
  "load_global name =
     (case map_of delete_vm_imported_wf_names name of
        None \<Rightarrow> Inl NameError
      | Some v \<Rightarrow> Inr v)"

text \<open>
  The whole body is inside \<open>try: ... except Exception:\<close>, and the statement after it is
  \<open>return WF_FAIL\<close>. \<open>get_vm_status_by_volume\<close> (called without \<open>allow_missing\<close>) has no
  VMStatus to return when there is none, and the exception handler takes over.
\<close>

definition archive_expired_volume :: "constants \<Rightarrow> cloud \<Rightarrow> store \<Rightarrow> wf_result \<times> store" where
  "archive_expired_volume k c st =
     (case db_vm_status st of
        None \<Rightarrow> (WF_FAIL, st)
      | Some vm_status \<Rightarrow>
          if status vm_status \<noteq> VM_SHELVED then
            (case load_global ''WF_SKIP'' of
               Inl e \<Rightarrow> (WF_FAIL, st)
             | Inr r \<Rightarrow> (r, st))
          else
            (case archive_volume_worker k c st of
               (Inl e, st1) \<Rightarrow> (WF_FAIL, st1)
             | (Inr r, st1) \<Rightarrow> (r, st1)))"



section \<open>The create workflow (vm_manager/vm_functions/create_vm.py)\<close>

subsection \<open>\<open>_get_source_volume\<close>\<close>

text \<open>
  The list comprehension \<open>[v for v in candidates if v.name.startswith(image_name)]\<close>:
  a candidate whose name is \<open>None\<close> has no \<open>startswith\<close>.
\<close>

fun prefix_matches :: "string \<Rightarrow> CloudVolume list \<Rightarrow> exn + CloudVolume list" where
  "prefix_matches image_name [] = Inr []"
| "prefix_matches image_name (v # vs) =
     (case cv_name v of
        None \<Rightarrow> Inl AttributeError
      | Some name \<Rightarrow>
          (case prefix_matches image_name vs of
             Inl e \<Rightarrow> Inl e
           | Inr ms \<Rightarrow> Inr (if prefix image_name name then v # ms else ms)))"

text \<open>
  The sort key \<open>int(v.metadata.get('nectar_build', 0))\<close>. The builtin \<open>int\<close> on a string
  is the parameter \<open>py_int\<close>: \<open>None\<close> where \<open>int\<close> raises \<open>ValueError\<close>. A candidate
  whose metadata is \<open>None\<close> has no \<open>get\<close>.
\<close>

definition build_key :: "(string \<Rightarrow> int option) \<Rightarrow> CloudVolume \<Rightarrow> exn + int" where
  "build_key py_int v =
     (case cv_metadata v of
        None \<Rightarrow> Inl AttributeError
      | Some metadata \<Rightarrow>
          (case metadata ''nectar_build'' of
             None \<Rightarrow> Inr 0
           | Some b \<Rightarrow> (case py_int b of None \<Rightarrow> Inl ValueError | Some n \<Rightarrow> Inr n)))"

text \<open>\<open>sorted\<close> computes the key of every element, in order, before it compares any.\<close>

fun with_keys :: "(string \<Rightarrow> int option) \<Rightarrow> CloudVolume list \<Rightarrow> exn + (int \<times> CloudVolume) list" where
  "with_keys py_int [] = Inr []"
| "with_keys py_int (v # vs) =
     (case build_key py_int v of
        Inl e \<Rightarrow> Inl e
      | Inr n \<Rightarrow>
          (case with_keys py_int vs of
             Inl e \<Rightarrow> Inl e
           | Inr kvs \<Rightarrow> Inr ((n, v) # kvs)))"

text \<open>
  \<open>sorted(..., reverse=True)\<close> is stable: elements with equal keys keep their order. That
  is the stable sort by the negated key.
\<close>

definition get_source_volume ::
  "(string \<Rightarrow> int option) \<Rightarrow> string \<Rightarrow> CloudVolume list option \<Rightarrow> exn + CloudVolume" where
  "get_source_volume py_int image_name res =
     (let candidates = (case res of None \<Rightarrow> [] | Some vs \<Rightarrow> vs)
      in case prefix_matches image_name candidates of
           Inl e \<Rightarrow> Inl e
         | Inr ms \<Rightarrow>
             (case with_keys py_int ms of
                Inl e \<Rightarrow> Inl e
              | Inr kvs \<Rightarrow>
                  (case map snd (sort_key (\<lambda>kv. - fst kv) kvs) of
                     [] \<Rightarrow> Inl RuntimeWarning
                   | match # _ \<Rightarrow> Inr match)))"

subsection \<open>\<open>_create_volume\<close>\<close>

text \<open>
  Modelled from the spec: \<open>Volume.objects.get_volume\<close> of vm_manager.models, which is
  not among the sources. It finds the user's active volume, and a volume is active when
  it is "not deleted, not marked_for_deletion".
\<close>

definition get_volume :: "store \<Rightarrow> Volume option" where
  "get_volume st =
     (if volume_deleted (db_volume st) = None \<and> volume_marked_for_deletion (db_volume st) = None
      then Some (db_volume st) else None)"

fun VolumeStatus_str :: "VolumeStatus \<Rightarrow> string" where
  "VolumeStatus_str VS_UNKNOWN = ''VolumeStatus.UNKNOWN''"
| "VolumeStatus_str VS_CREATING = ''VolumeStatus.CREATING''"
| "VolumeStatus_str VS_AVAILABLE = ''VolumeStatus.AVAILABLE''"
| "VolumeStatus_str VS_IN_USE = ''VolumeStatus.IN_USE''"
| "VolumeStatus_str VS_DELETING = ''VolumeStatus.DELETING''"
| "VolumeStatus_str VS_ERROR = ''VolumeStatus.ERROR''"
| "VolumeStatus_str VS_ERROR_DELETING = ''VolumeStatus.ERROR_DELETING''"
| "VolumeStatus_str VS_ERROR_MANAGING = ''VolumeStatus.ERROR_MANAGING''"
| "VolumeStatus_str VS_ERROR_RESTORING = ''VolumeStatus.ERROR_RESTORING''"
| "VolumeStatus_str VS_ERROR_BACKING_UP = ''VolumeStatus.ERROR_BACKING_UP''"
| "VolumeStatus_str VS_ERROR_EXTENDING = ''VolumeStatus.ERROR_EXTENDING''"
| "VolumeStatus_str VS_MANAGING = ''VolumeStatus.MANAGING''"
| "VolumeStatus_str VS_ATTACHING = ''VolumeStatus.ATTACHING''"
| "VolumeStatus_str VS_DETACHING = ''VolumeStatus.DETACHING''"
| "VolumeStatus_str VS_MAINTENANCE = ''VolumeStatus.MAINTENANCE''"
| "VolumeStatus_str VS_RESTORING_BACKUP = ''VolumeStatus.RESTORING_BACKUP''"
| "VolumeStatus_str VS_RESERVED = ''VolumeStatus.RESERVED''"
| "VolumeStatus_str VS_AWAITING_TRANSFER = ''VolumeStatus.AWAITING_TRANSFER''"
| "VolumeStatus_str VS_BACKING_UP = ''VolumeStatus.BACKING_UP''"
| "VolumeStatus_str VS_DOWNLOADING = ''VolumeStatus.DOWNLOADING''"
| "VolumeStatus_str VS_UPLOADING = ''VolumeStatus.UPLOADING''"
| "VolumeStatus_str VS_RETYPING = ''VolumeStatus.RETYPING''"
| "VolumeStatus_str VS_EXTENDING = ''VolumeStatus.EXTENDING''"

text \<open>
  \<open>volume.set_expires(None)\<close> is a method of the model classes: the parameter
  \<open>set_expires_none\<close>. \<open>get_vm_status_by_volume\<close> without \<open>allow_missing\<close> raises when
  there is no VMStatus. Every path through \<open>if volume:\<close> returns, so below it \<open>volume\<close> is
  \<open>None\<close>, and the first entry of the metadata dictionary reads \<open>volume.hostname_id\<close>.
\<close>

definition create_volume ::
  "(string \<Rightarrow> int option) \<Rightarrow> (store \<Rightarrow> store) \<Rightarrow> cloud \<Rightarrow> string \<Rightarrow> string \<Rightarrow> store
     \<Rightarrow> (exn + Volume option) \<times> store" where
  "create_volume py_int set_expires_none c image_name zone_name st =
     (case get_volume st of
        Some volume \<Rightarrow>
          (let volume_exist = cloud_is_volume_created c;
               st1 = emit Cloud_is_volume_created st
           in if volume_exist = None \<or> volume_exist = Some False then
                (Inr None, volume_error ''Cinder volume missing'' st1)
              else
                let cloud_volume_status = cloud_get_volume_status c;
                    st2 = emit Cloud_get_volume_status st1
                in if cloud_volume_status \<noteq> VS_AVAILABLE then
                     (Inr None,
                      volume_error
                        (''Cinder volume in state '' @ VolumeStatus_str cloud_volume_status) st2)
                   else
                     let cloud_volume_zone = cloud_get_volume_zone c;
                         st3 = emit Cloud_get_volume_zone st2
                     in if cloud_volume_zone \<noteq> zone_name then
                          (Inr None, volume_error ''Cinder volume in wrong AZ'' st3)
                        else
                          (case db_vm_status st3 of
                             None \<Rightarrow> (Inl DoesNotExist, st3)
                           | Some vm_status \<Rightarrow>
                               if status vm_status = VM_SHELVED then
                                 (if archived_at (db_volume st3) \<noteq> None then (Inr None, st3)
                                  else
                                    let st4 = set_expires_none st3
                                    in (Inr (Some (db_volume st4)), st4))
                               else (Inr None, st3)))
      | None \<Rightarrow>
          (let st1 = (case db_vm_status st of
                        None \<Rightarrow> st
                      | Some vm_status \<Rightarrow>
                          save_vm_status
                            (vm_status\<lparr>status_progress := 25,
                                       status_message := ''Creating volume''\<rparr>) st);
               st2 = emit Cloud_get_volume_list st1
           in case get_source_volume py_int image_name (cloud_get_volume_list c) of
                Inl e \<Rightarrow> (Inl e, st2)
              | Inr cloud_source_volume \<Rightarrow> (Inl AttributeError, st2)))"


section \<open>The resize step\<close>

text \<open>
  Modelled from the spec: \<open>_resize_vm\<close> of vm_manager/vm_functions/resize_vm.py, which
  is not among the sources (its unit test is). "\<open>_resize_vm\<close>: short-circuits if the
  remote server already has the target flavor (no-op, returns descriptive no-op
  message); else issues resize and schedules confirmation after a fixed settle delay";
  "returns "already has flavor F... Skipping the resize," performs no remote resize
  call". The test gives the message in full, the result of the other path (what the
  remote resize call returned) and the remote calls made. \<open>current_flavor\<close> is the flavor
  the remote server reports and \<open>resize_result\<close> what the remote resize call answers.
\<close>

datatype remote_call = Servers_get string | Servers_resize string string

record resize_world =
  remote_calls :: "remote_call list"
  confirmations_scheduled :: "(string \<times> string) list"

definition resize_vm ::
  "string \<Rightarrow> string \<Rightarrow> string \<Rightarrow> string \<Rightarrow> resize_world \<Rightarrow> string \<times> resize_world" where
  "resize_vm instance flavor current_flavor resize_result w =
     (let w1 = w\<lparr>remote_calls := remote_calls w @ [Servers_get instance]\<rparr>
      in if current_flavor = flavor then
           (''Instance '' @ instance @ '' already has flavor '' @ flavor
              @ ''. Skipping the resize.'', w1)
         else
           (resize_result,
            w1\<lparr>remote_calls := remote_calls w1 @ [Servers_resize instance flavor],
               confirmations_scheduled :=
                 confirmations_scheduled w1 @ [(instance, flavor)]\<rparr>))"



section \<open>Example values\<close>

definition example_constants :: constants where
  "example_constants =
     \<lparr>INSTANCE_DELETION_RETRY_WAIT_TIME = 30, INSTANCE_DELETION_RETRY_COUNT = 5,
      VOLUME_DELETION_RETRY_WAIT_TIME = 30, VOLUME_DELETION_RETRY_COUNT = 5,
      BACKUP_DELETION_RETRY_WAIT_TIME = 30, BACKUP_DELETION_RETRY_COUNT = 5,
      INSTANCE_CHECK_SHUTOFF_RETRY_WAIT_TIME = 10, INSTANCE_CHECK_SHUTOFF_RETRY_COUNT = 2,
      ARCHIVE_POLL_SECONDS = 60, ARCHIVE_WAIT_SECONDS = 3600, BACKUP_LIFETIME = 90\<rparr>"

definition example_cloud :: cloud where
  "example_cloud =
     \<lparr>cloud_is_server_created = Some True, cloud_get_server_status = SS_ACTIVE,
      cloud_check_shutdown_status = False, cloud_delete_server = Some True,
      cloud_is_volume_created = Some True, cloud_get_volume_status = VS_AVAILABLE,
      cloud_delete_volume = Some True, cloud_create_volume_backup = Inr ''backup-1'',
      cloud_is_backup_created = Some True, cloud_get_backup_status = VS_AVAILABLE,
      cloud_delete_volume_backup = Some True, cloud_get_volume_zone = ''zone-a'',
      cloud_get_volume_list = Some []\<rparr>"

text \<open>
  A store whose volume has an expiration in stage \<open>EXP_EXPIRING\<close> and whose VMStatus is
  \<open>VM_OKAY\<close>.
\<close>

definition example_store :: store where
  "example_store =
     \<lparr>db_instance = \<lparr>instance_id = ''server-1'', guac_connection = None,
                     instance_marked_for_deletion = None, instance_deleted = None,
                     instance_error_message = None\<rparr>,
      db_volume = \<lparr>volume_id = ''volume-1'', backup_id = None, archived_at = None,
                   volume_marked_for_deletion = None, volume_deleted = None,
                   volume_error_message = None\<rparr>,
      db_vm_status = Some \<lparr>status = VM_OKAY, status_progress = 100,
                           status_message = ''Instance ready''\<rparr>,
      db_expiration = Some \<lparr>stage = EXP_EXPIRING, stage_date = 10\<rparr>,
      db_backup_expiration = None,
      scheduled = [], trace = [], now = 100\<rparr>"

text \<open>A provider whose server is gone: every call on it raises \<open>NotFound\<close>.\<close>

definition nova_server_gone :: nova_client where
  "nova_server_gone = \<lparr>servers_get = Inl NovaNotFound, servers_delete = Inl NovaNotFound\<rparr>"


text \<open>The connector's answers when every existence check fails, and when every one finds nothing.\<close>

definition cloud_all_unknown :: cloud where
  "cloud_all_unknown =
     example_cloud\<lparr>cloud_is_server_created := None, cloud_is_volume_created := None,
                   cloud_is_backup_created := None\<rparr>"

definition cloud_all_absent :: cloud where
  "cloud_all_absent =
     example_cloud\<lparr>cloud_is_server_created := Some False, cloud_is_volume_created := Some False,
                   cloud_is_backup_created := Some False\<rparr>"

text \<open>A volume that exists and is still being deleted.\<close>

definition cloud_still_deleting :: cloud where
  "cloud_still_deleting = example_cloud\<lparr>cloud_get_volume_status := VS_DELETING\<rparr>"

text \<open>
  An instance of the parameter \<open>py_int\<close>: Python's \<open>int\<close> on a string of decimal digits
  with an optional sign, and \<open>ValueError\<close> (\<open>None\<close>) on a string that holds anything
  else, such as \<open>12.5\<close>. (The builtin also accepts surrounding blanks and underscores
  between digits; the examples use none.)
\<close>

definition digit_value :: "char \<Rightarrow> nat option" where
  "digit_value c =
     map_of [(CHR ''0'', 0), (CHR ''1'', 1), (CHR ''2'', 2), (CHR ''3'', 3), (CHR ''4'', 4),
             (CHR ''5'', 5), (CHR ''6'', 6), (CHR ''7'', 7), (CHR ''8'', 8), (CHR ''9'', 9)] c"

fun digits_value :: "nat \<Rightarrow> string \<Rightarrow> nat option" where
  "digits_value acc [] = Some acc"
| "digits_value acc (c # cs) =
     (case digit_value c of
        None \<Rightarrow> None
      | Some d \<Rightarrow> digits_value (10 * acc + d) cs)"

definition py_int_decimal :: "string \<Rightarrow> int option" where
  "py_int_decimal s =
     (case s of
        [] \<Rightarrow> None
      | c # cs \<Rightarrow>
          if c = CHR ''-'' then
            (if cs = [] then None else map_option (\<lambda>n. - int n) (digits_value 0 cs))
          else if c = CHR ''+'' then
            (if cs = [] then None else map_option int (digits_value 0 cs))
          else map_option int (digits_value 0 s))"

text \<open>
  Four candidate volumes with builds that \<open>int\<close> accepts or with none, a candidate whose
  build is the string \<open>12.5\<close>, and a candidate that has no name.
\<close>

definition example_candidates :: "CloudVolume list" where
  "example_candidates =
     [\<lparr>cv_id = ''v1'', cv_name = Some ''ubuntu-22 [v3]'',
       cv_metadata = Some [''nectar_build'' \<mapsto> ''3'']\<rparr>,
      \<lparr>cv_id = ''v2'', cv_name = Some ''centos-9'',
       cv_metadata = Some [''nectar_build'' \<mapsto> ''12'']\<rparr>,
      \<lparr>cv_id = ''v3'', cv_name = Some ''ubuntu-22 [v12]'',
       cv_metadata = Some [''nectar_build'' \<mapsto> ''12'']\<rparr>,
      \<lparr>cv_id = ''v4'', cv_name = Some ''ubuntu-22'', cv_metadata = Some Map.empty\<rparr>]"

definition candidate_fractional_build :: CloudVolume where
  "candidate_fractional_build =
     \<lparr>cv_id = ''v5'', cv_name = Some ''ubuntu-22 [v12.5]'',
      cv_metadata = Some [''nectar_build'' \<mapsto> ''12.5'']\<rparr>"

definition candidate_unnamed :: CloudVolume where
  "candidate_unnamed = \<lparr>cv_id = ''v6'', cv_name = None, cv_metadata = Some Map.empty\<rparr>"


section \<open>Predicates of the properties\<close>


text \<open>
  The candidates \<open>_get_source_volume\<close> chooses from (\<open>res or []\<close>), and what it is for a
  candidate to match: it has a name, and the name starts with the image name.
\<close>

definition candidates_of :: "CloudVolume list option \<Rightarrow> CloudVolume list" where
  "candidates_of res = (case res of None \<Rightarrow> [] | Some vs \<Rightarrow> vs)"

definition name_matches :: "string \<Rightarrow> CloudVolume \<Rightarrow> bool" where
  "name_matches image_name v =
     (case cv_name v of None \<Rightarrow> False | Some name \<Rightarrow> prefix image_name name)"

text \<open>
  The build number of a candidate, in the words of the property: the value of its
  metadata entry \<open>nectar_build\<close> as an integer, 0 when there is no such entry; none
  when the candidate has no metadata or the entry is not an integer.
\<close>

definition build_number :: "(string \<Rightarrow> int option) \<Rightarrow> CloudVolume \<Rightarrow> int option" where
  "build_number py_int v =
     (case cv_metadata v of
        None \<Rightarrow> None
      | Some metadata \<Rightarrow>
          (case metadata ''nectar_build'' of
             None \<Rightarrow> Some 0
           | Some b \<Rightarrow> py_int b))"



section \<open>Status translation\<close>

text \<open>
  The keys of both mapping tables are members of the remote-status \<open>Enum\<close> classes, and
  the connector looks up the \<open>status\<close> attribute of the provider's object, a string. No
  string is a key, so every string is translated to the default.
\<close>

lemma get_status_server_of_str: "get_status OS_SERVER_STATUS_MAPPER (Py_str s) = SS_UNKNOWN"
  by (simp add: get_status_def get_mapped_status_def get_default_value_def
      OS_SERVER_STATUS_MAPPER_def StatusMapper_create_def OS_SERVER_STATUS_MAPPING_def)

lemma get_status_volume_of_str: "get_status OS_VOLUME_STATUS_MAPPER (Py_str s) = VS_UNKNOWN"
  by (simp add: get_status_def get_mapped_status_def get_default_value_def
      OS_VOLUME_STATUS_MAPPER_def StatusMapper_create_def OS_VOLUME_STATUS_MAPPING_def)

lemma OpenStack_get_server_status_always_UNKNOWN:
  "servers_get nova = Inr nova_server \<Longrightarrow> OpenStack_get_server_status nova = Inr SS_UNKNOWN"
  by (simp add: OpenStack_get_server_status_def get_status_server_of_str)

lemma OpenStack_get_volume_status_always_UNKNOWN:
  "volumes_get cinder = Inr cinder_volume \<Longrightarrow>
     OpenStack_get_volume_status cinder = Inr VS_UNKNOWN"
  by (simp add: OpenStack_get_volume_status_def get_status_volume_of_str)

text \<open>
  C3. The claim: the status translation returns, for every remote status string, the
  internal status the mapping table assigns to it, and \<open>UNKNOWN\<close> exactly when the
  string is not in the table. The code at the remote string \<open>ACTIVE\<close>: the table maps
  the member \<open>OpenStackServerStatus.ACTIVE\<close>, whose value is that string, to
  \<open>ServerStatus.ACTIVE\<close>, and \<open>get_server_status\<close> returns \<open>ServerStatus.UNKNOWN\<close>.
\<close>

theorem get_server_status_of_ACTIVE:
  "OpenStack_get_server_status
     \<lparr>servers_get = Inr \<lparr>nova_status = ''ACTIVE''\<rparr>, servers_delete = Inr ()\<rparr> = Inr SS_UNKNOWN
   \<and> OpenStackServerStatus_value OSS_ACTIVE = ''ACTIVE''
   \<and> map_of OS_SERVER_STATUS_MAPPING (Py_member OSS_ACTIVE) = Some SS_ACTIVE"
  by (simp add: OpenStack_get_server_status_def get_status_server_of_str
      OS_SERVER_STATUS_MAPPING_def)


section \<open>Deleting an instance or a volume\<close>

text \<open>
  C4. When the provider reports the server as not found, the connector's
  \<open>is_server_created\<close> answers false and its \<open>delete_server\<close> answers true without
  raising; and \<open>delete_instance\<close>, given that answer, returns \<open>True\<close> and sets
  \<open>marked_for_deletion\<close>, whatever the instance's row holds (deleted or not).
\<close>

theorem delete_instance_idempotent:
  assumes "servers_get nova = Inl NovaNotFound"
  shows "OpenStack_is_server_created nova = Inr (Some False)
       \<and> OpenStack_delete_server nova = Inr (Some True)
       \<and> (\<forall>c st. Inr (cloud_delete_server c) = OpenStack_delete_server nova \<longrightarrow>
             fst (delete_instance c st) = True
           \<and> instance_marked_for_deletion (db_instance (snd (delete_instance c st)))
               = Some (now st))"
  using assms
  by (auto simp: OpenStack_is_server_created_def OpenStack_delete_server_def
      delete_instance_def Let_def emit_def save_instance_def)

theorem delete_instance_idempotent_witness:
  "servers_get nova_server_gone = Inl NovaNotFound
   \<and> OpenStack_delete_server nova_server_gone = Inr (Some True)
   \<and> Inr (cloud_delete_server example_cloud) = OpenStack_delete_server nova_server_gone
   \<and> fst (delete_instance example_cloud example_store) = True
   \<and> instance_marked_for_deletion
        (db_instance (snd (delete_instance example_cloud example_store))) = Some 100"
  using delete_instance_idempotent [of nova_server_gone]
  by (simp add: nova_server_gone_def example_cloud_def example_store_def)

text \<open>
  C9. \<open>delete_instance\<close> and \<open>delete_volume\<close> on a failed delete (the connector answers
  \<open>None\<close> or \<open>False\<close>) return \<open>False\<close> and leave the store as it was, the call apart; the
  timestamp (\<open>marked_for_deletion\<close> of the instance, \<open>deleted\<close> of the volume) changes
  only when the connector answers \<open>True\<close>, and then it is set.
\<close>

theorem delete_atomic_on_error:
  "(cloud_delete_server c = None \<or> cloud_delete_server c = Some False \<longrightarrow>
      delete_instance c st = (False, st\<lparr>trace := trace st @ [Cloud_delete_server]\<rparr>))
   \<and> (instance_marked_for_deletion (db_instance (snd (delete_instance c st)))
        \<noteq> instance_marked_for_deletion (db_instance st) \<longrightarrow>
      cloud_delete_server c = Some True)
   \<and> (cloud_delete_server c = Some True \<longrightarrow>
      fst (delete_instance c st) = True
      \<and> instance_marked_for_deletion (db_instance (snd (delete_instance c st))) = Some (now st))
   \<and> (cloud_delete_volume c = None \<or> cloud_delete_volume c = Some False \<longrightarrow>
      delete_volume c st = (False, st\<lparr>trace := trace st @ [Cloud_delete_volume]\<rparr>))
   \<and> (volume_deleted (db_volume (snd (delete_volume c st)))
        \<noteq> volume_deleted (db_volume st) \<longrightarrow>
      cloud_delete_volume c = Some True)
   \<and> (cloud_delete_volume c = Some True \<longrightarrow>
      fst (delete_volume c st) = True
      \<and> volume_deleted (db_volume (snd (delete_volume c st))) = Some (now st))"
  by (auto simp: delete_instance_def delete_volume_def Let_def emit_def save_instance_def
      save_volume_def)

theorem delete_atomic_on_error_witness:
  "cloud_delete_server (example_cloud\<lparr>cloud_delete_server := None,
                                       cloud_delete_volume := Some False\<rparr>) = None
   \<and> delete_instance (example_cloud\<lparr>cloud_delete_server := None,
                                     cloud_delete_volume := Some False\<rparr>) example_store
       = (False, example_store\<lparr>trace := [Cloud_delete_server]\<rparr>)
   \<and> cloud_delete_volume (example_cloud\<lparr>cloud_delete_server := None,
                                        cloud_delete_volume := Some False\<rparr>) = Some False
   \<and> delete_volume (example_cloud\<lparr>cloud_delete_server := None,
                                   cloud_delete_volume := Some False\<rparr>) example_store
       = (False, example_store\<lparr>trace := [Cloud_delete_volume]\<rparr>)
   \<and> cloud_delete_server example_cloud = Some True
   \<and> instance_marked_for_deletion (db_instance (snd (delete_instance example_cloud example_store)))
       \<noteq> instance_marked_for_deletion (db_instance example_store)
   \<and> cloud_delete_volume example_cloud = Some True
   \<and> volume_deleted (db_volume (snd (delete_volume example_cloud example_store)))
       \<noteq> volume_deleted (db_volume example_store)"
  using delete_atomic_on_error
          [of "example_cloud\<lparr>cloud_delete_server := None, cloud_delete_volume := Some False\<rparr>"
              example_store]
        delete_atomic_on_error [of example_cloud example_store]
  by (simp add: example_cloud_def example_store_def)


section \<open>The archive entry point\<close>

lemma archive_expired_volume_not_shelved_is_FAIL:
  "db_vm_status st = Some vs \<Longrightarrow> status vs \<noteq> VM_SHELVED \<Longrightarrow>
     archive_expired_volume k c st = (WF_FAIL, st)"
  by (simp add: archive_expired_volume_def load_global_def delete_vm_imported_wf_names_def)

text \<open>
  C5. The claim: for a volume whose VMStatus is not \<open>VM_SHELVED\<close>,
  \<open>archive_expired_volume\<close> does not archive and returns the \<open>SKIP\<close> result. The code at
  a volume whose VMStatus is \<open>VM_OKAY\<close>: nothing is archived (the store is unchanged, no
  call reaches the cloud), and the result is \<open>WF_FAIL\<close>, because the module does not
  import the name \<open>WF_SKIP\<close> and the \<open>NameError\<close> is caught by \<open>except Exception\<close>.
\<close>

theorem archive_expired_volume_not_shelved:
  "archive_expired_volume example_constants example_cloud example_store
     = (WF_FAIL, example_store)
   \<and> load_global ''WF_SKIP'' = Inl NameError"
  by (simp add: archive_expired_volume_def example_store_def load_global_def
      delete_vm_imported_wf_names_def)



section \<open>The finalization step\<close>

text \<open>\<open>_end_delete\<close> touches the two expirations and the trace, and nothing else.\<close>

lemma end_delete_body_keeps:
  "db_volume (end_delete_body r which st) = db_volume st"
  "db_instance (end_delete_body r which st) = db_instance st"
  "db_vm_status (end_delete_body r which st) = db_vm_status st"
  "scheduled (end_delete_body r which st) = scheduled st"
  "now (end_delete_body r which st) = now st"
  by (cases which; simp add: end_delete_body_def emit_def split: option.splits)+

lemma end_delete_body_trace:
  "\<exists>es. trace (end_delete_body r which st) = trace st @ es
        \<and> (\<forall>e \<in> set es. \<exists>x. e = Saved_expiration x)"
  by (cases which; simp add: end_delete_body_def emit_def split: option.splits)

lemma end_delete_keeps:
  "fst (end_delete r st) = r"
  "db_volume (snd (end_delete r st)) = db_volume st"
  "db_instance (snd (end_delete r st)) = db_instance st"
  "db_vm_status (snd (end_delete r st)) = db_vm_status st"
  "scheduled (snd (end_delete r st)) = scheduled st"
  "now (snd (end_delete r st)) = now st"
  by (simp_all add: end_delete_def end_delete_body_keeps)

lemma end_delete_trace:
  "\<exists>es. trace (snd (end_delete r st)) = trace st @ es
        \<and> (\<forall>e \<in> set es. \<exists>x. e = Saved_expiration x)"
proof -
  obtain es1 where 1: "trace (end_delete_body r The_expiration st) = trace st @ es1"
    "\<forall>e \<in> set es1. \<exists>x. e = Saved_expiration x"
    using end_delete_body_trace by blast
  obtain es2 where 2: "trace (end_delete_body r The_backup_expiration
                                (end_delete_body r The_expiration st))
                        = trace (end_delete_body r The_expiration st) @ es2"
    "\<forall>e \<in> set es2. \<exists>x. e = Saved_expiration x"
    using end_delete_body_trace by blast
  have "trace (snd (end_delete r st)) = trace st @ (es1 @ es2)"
    using 1 2 by (simp add: end_delete_def)
  moreover have "\<forall>e \<in> set (es1 @ es2). \<exists>x. e = Saved_expiration x"
    using 1 2 by auto
  ultimately show ?thesis by blast
qed

lemma end_delete_trace_cons:
  "trace s = trace st @ x # es \<Longrightarrow> \<exists>rest. trace (snd (end_delete r s)) = trace st @ x # rest"
  using end_delete_trace [of r s] by auto

lemma end_delete_trace_mono:
  "e \<in> set (trace s) \<Longrightarrow> e \<in> set (trace (snd (end_delete r s)))"
  using end_delete_trace [of r s] by auto




section \<open>Archiving a volume\<close>

lemma archive_volume_worker_trace:
  "\<exists>rest. trace (snd (archive_volume_worker k c st))
      = trace st @ Saved_volume ((db_volume st)\<lparr>volume_marked_for_deletion := Some (now st)\<rparr>)
          # rest"
  unfolding archive_volume_worker_def Let_def
  by (auto simp: save_volume_def emit_def volume_error_def save_vm_status_def enqueue_in_def
      split: sum.splits option.splits intro!: end_delete_trace_cons)

lemma archive_volume_worker_asks_for_volume:
  "Cloud_is_volume_created \<in> set (trace (snd (archive_volume_worker k c st)))"
  unfolding archive_volume_worker_def Let_def
  by (auto simp: save_volume_def emit_def volume_error_def save_vm_status_def enqueue_in_def
      split: sum.splits option.splits intro!: end_delete_trace_mono)

lemma archive_volume_worker_marked:
  "volume_marked_for_deletion (db_volume (snd (archive_volume_worker k c st))) = Some (now st)"
  unfolding archive_volume_worker_def Let_def
  by (simp add: end_delete_keeps save_volume_def emit_def volume_error_def save_vm_status_def
      enqueue_in_def split: sum.splits option.splits)


text \<open>
  C10. \<open>archive_volume_worker\<close> first saves the volume with \<open>marked_for_deletion\<close> set
  to the current time: that save is the first thing the run does, before any call to
  the cloud connector. On every outcome (volume missing, wrong volume status, backup
  creation failed or raised, backup started) the volume of the final store still has
  that timestamp, so \<open>get_volume\<close> does not find it for a later launch.
\<close>

theorem archive_volume_worker_marks_volume_first:
  "(\<exists>rest. trace (snd (archive_volume_worker k c st))
      = trace st @ Saved_volume ((db_volume st)\<lparr>volume_marked_for_deletion := Some (now st)\<rparr>)
          # rest)
   \<and> volume_marked_for_deletion (db_volume (snd (archive_volume_worker k c st))) = Some (now st)
   \<and> get_volume (snd (archive_volume_worker k c st)) = None"
  using archive_volume_worker_trace [of k c st] archive_volume_worker_marked [of k c st]
  by (simp add: get_volume_def)


section \<open>Running out of retries\<close>

lemma polling_continues_while_retries_remain:
  assumes "retries > 0"
  shows "(\<not> cloud_check_shutdown_status c \<longrightarrow>
            fst (check_instance_is_shutoff_and_delete k c retries func st) = WF_CONTINUE
          \<and> Cloud_delete_server
               \<notin> set (trace (snd (check_instance_is_shutoff_and_delete k c retries func st)))
                   - set (trace st))
       \<and> (cloud_is_volume_created c = Some True \<and> cloud_get_volume_status c = VS_DELETING \<longrightarrow>
            wait_until_volume_is_deleted k c retries st
              = (WF_CONTINUE,
                 enqueue_in (Seconds (VOLUME_DELETION_RETRY_WAIT_TIME k))
                   (T_wait_until_volume_is_deleted (retries - 1))
                   (emit Cloud_get_volume_status (emit Cloud_is_volume_created st))))
       \<and> (cloud_is_backup_created c = Some True \<longrightarrow>
            wait_until_backup_is_deleted k c retries st
              = (WF_CONTINUE,
                 enqueue_in (Seconds (BACKUP_DELETION_RETRY_WAIT_TIME k))
                   (T_wait_until_backup_is_deleted (retries - 1))
                   (emit Cloud_is_backup_created st)))"
  using assms
  by (simp add: check_instance_is_shutoff_and_delete_def wait_until_volume_is_deleted_def
      wait_until_backup_is_deleted_def Let_def emit_def enqueue_in_def)

text \<open>
  C6. With no retries left (\<open>retries \<le> 0\<close>) the shutoff check does what it does when the
  shutoff is confirmed, whatever the cloud answers: it calls \<open>delete_server\<close>, and when
  that call succeeds it returns \<open>WF_CONTINUE\<close> with the next step scheduled. With no
  retries left, the volume poll (volume still there, still deleting) and the backup poll
  (backup still there) end the run with \<open>WF_RETRY\<close>, the retryable failure result, and
  schedule nothing; the volume poll issues no delete call.
\<close>

theorem retry_exhaustion_asymmetry:
  assumes "retries \<le> 0"
  shows
   "check_instance_is_shutoff_and_delete k c retries func st
      = check_instance_is_shutoff_and_delete k (c\<lparr>cloud_check_shutdown_status := True\<rparr>)
          retries func st
    \<and> Cloud_delete_server
         \<in> set (trace (snd (check_instance_is_shutoff_and_delete k c retries func st)))
    \<and> (cloud_delete_server c = Some True \<longrightarrow>
         fst (check_instance_is_shutoff_and_delete k c retries func st) = WF_CONTINUE
       \<and> scheduled (snd (check_instance_is_shutoff_and_delete k c retries func st))
           = scheduled st @ [(Seconds (INSTANCE_DELETION_RETRY_WAIT_TIME k), func)])
    \<and> (cloud_is_volume_created c = Some True \<and> cloud_get_volume_status c = VS_DELETING \<longrightarrow>
         fst (wait_until_volume_is_deleted k c retries st) = WF_RETRY
       \<and> scheduled (snd (wait_until_volume_is_deleted k c retries st)) = scheduled st
       \<and> Cloud_delete_volume \<notin> set (trace (snd (wait_until_volume_is_deleted k c retries st)))
                                   - set (trace st))
    \<and> (cloud_is_backup_created c = Some True \<longrightarrow>
         fst (wait_until_backup_is_deleted k c retries st) = WF_RETRY
       \<and> scheduled (snd (wait_until_backup_is_deleted k c retries st)) = scheduled st)"
proof -
  have a: "check_instance_is_shutoff_and_delete k c retries func st
      = check_instance_is_shutoff_and_delete k (c\<lparr>cloud_check_shutdown_status := True\<rparr>)
          retries func st"
    using assms
    by (simp add: check_instance_is_shutoff_and_delete_def delete_instance_def Let_def)
  have b: "Cloud_delete_server
             \<in> set (trace (snd (check_instance_is_shutoff_and_delete k c retries func st)))"
    using assms
    by (simp add: check_instance_is_shutoff_and_delete_def delete_instance_def Let_def emit_def
        save_instance_def save_vm_status_def enqueue_in_def split: option.splits)
  have c: "cloud_delete_server c = Some True \<longrightarrow>
         fst (check_instance_is_shutoff_and_delete k c retries func st) = WF_CONTINUE
       \<and> scheduled (snd (check_instance_is_shutoff_and_delete k c retries func st))
           = scheduled st @ [(Seconds (INSTANCE_DELETION_RETRY_WAIT_TIME k), func)]"
    using assms
    by (simp add: check_instance_is_shutoff_and_delete_def delete_instance_def Let_def emit_def
        save_instance_def save_vm_status_def enqueue_in_def split: option.splits)
  have d1: "cloud_is_volume_created c = Some True \<and> cloud_get_volume_status c = VS_DELETING \<longrightarrow>
         fst (wait_until_volume_is_deleted k c retries st) = WF_RETRY
       \<and> scheduled (snd (wait_until_volume_is_deleted k c retries st)) = scheduled st"
    using assms
    by (simp add: wait_until_volume_is_deleted_def Let_def end_delete_keeps volume_error_def
        save_volume_def emit_def)
  have d2: "cloud_is_volume_created c = Some True \<and> cloud_get_volume_status c = VS_DELETING \<longrightarrow>
       Cloud_delete_volume \<notin> set (trace (snd (wait_until_volume_is_deleted k c retries st)))
                                   - set (trace st)"
  proof
    assume h: "cloud_is_volume_created c = Some True \<and> cloud_get_volume_status c = VS_DELETING"
    let ?s = "volume_error ''Ran out of retries trying to delete''
                (emit Cloud_get_volume_status (emit Cloud_is_volume_created st))"
    have eq: "wait_until_volume_is_deleted k c retries st = end_delete WF_RETRY ?s"
      using assms h by (simp add: wait_until_volume_is_deleted_def Let_def)
    obtain es where es: "trace (snd (end_delete WF_RETRY ?s)) = trace ?s @ es"
      "\<forall>e \<in> set es. \<exists>x. e = Saved_expiration x"
      using end_delete_trace by blast
    show "Cloud_delete_volume \<notin> set (trace (snd (wait_until_volume_is_deleted k c retries st)))
                                   - set (trace st)"
      using es unfolding eq
      by (auto simp: volume_error_def save_volume_def emit_def)
  qed
  have e: "cloud_is_backup_created c = Some True \<longrightarrow>
         fst (wait_until_backup_is_deleted k c retries st) = WF_RETRY
       \<and> scheduled (snd (wait_until_backup_is_deleted k c retries st)) = scheduled st"
    using assms
    by (simp add: wait_until_backup_is_deleted_def Let_def end_delete_keeps emit_def)
  show ?thesis using a b c d1 d2 e by blast
qed

theorem retry_exhaustion_asymmetry_witness:
  "(0::int) \<le> 0
   \<and> \<not> cloud_check_shutdown_status cloud_still_deleting
   \<and> cloud_delete_server cloud_still_deleting = Some True
   \<and> fst (check_instance_is_shutoff_and_delete example_constants cloud_still_deleting 0
             (T_dispose_volume_once_instance_is_deleted False 5) example_store) = WF_CONTINUE
   \<and> scheduled (snd (check_instance_is_shutoff_and_delete example_constants cloud_still_deleting
                        0 (T_dispose_volume_once_instance_is_deleted False 5) example_store))
       = [(Seconds 30, T_dispose_volume_once_instance_is_deleted False 5)]
   \<and> Cloud_delete_server
       \<in> set (trace (snd (check_instance_is_shutoff_and_delete example_constants
                              cloud_still_deleting 0
                              (T_dispose_volume_once_instance_is_deleted False 5) example_store)))
   \<and> cloud_is_volume_created cloud_still_deleting = Some True
   \<and> cloud_get_volume_status cloud_still_deleting = VS_DELETING
   \<and> fst (wait_until_volume_is_deleted example_constants cloud_still_deleting 0 example_store)
       = WF_RETRY
   \<and> cloud_is_backup_created cloud_still_deleting = Some True
   \<and> fst (wait_until_backup_is_deleted example_constants cloud_still_deleting 0 example_store)
       = WF_RETRY"
  using retry_exhaustion_asymmetry
          [of 0 example_constants cloud_still_deleting
              "T_dispose_volume_once_instance_is_deleted False 5" example_store,
           THEN conjunct2]
  by (simp add: cloud_still_deleting_def example_cloud_def example_store_def
      example_constants_def)


section \<open>Unknown and absent in the existence checks\<close>

lemma archive_volume_worker_keeps_instance:
  "db_instance (snd (archive_volume_worker k c st)) = db_instance st"
  unfolding archive_volume_worker_def Let_def
  by (simp add: end_delete_keeps save_volume_def emit_def volume_error_def save_vm_status_def
      enqueue_in_def split: sum.splits option.splits)

lemma dispose_unknown:
  "cloud_is_server_created c = None \<Longrightarrow>
     dispose_volume_once_instance_is_deleted k c archive retries st
       = (Inr WF_RETRY, st\<lparr>trace := trace st @ [Cloud_is_server_created]\<rparr>)"
  by (simp add: dispose_volume_once_instance_is_deleted_def emit_def)


lemma dispose_absent:
  "cloud_is_server_created c = Some False \<Longrightarrow>
     instance_deleted (db_instance (snd (dispose_volume_once_instance_is_deleted k c archive retries st)))
       = Some (now st)"
  by (simp add: dispose_volume_once_instance_is_deleted_def Let_def
      archive_volume_worker_keeps_instance delete_volume_def end_delete_keeps
      save_instance_def save_volume_def emit_def enqueue_in_def)

lemma dispose_absent_goes_on:
  assumes "cloud_is_server_created c = Some False"
  shows "(archive \<longrightarrow>
            Cloud_is_volume_created
              \<in> set (trace (snd (dispose_volume_once_instance_is_deleted k c archive retries st))))
       \<and> (\<not> archive \<longrightarrow>
            Cloud_delete_volume
              \<in> set (trace (snd (dispose_volume_once_instance_is_deleted k c archive retries st))))"
  using assms
  by (auto simp: dispose_volume_once_instance_is_deleted_def Let_def
      archive_volume_worker_asks_for_volume delete_volume_def
      save_instance_def save_volume_def emit_def enqueue_in_def
      intro!: end_delete_trace_mono)

lemma wait_volume_unknown:
  "cloud_is_volume_created c = None \<Longrightarrow>
     fst (wait_until_volume_is_deleted k c retries st) = WF_RETRY
   \<and> db_volume (snd (wait_until_volume_is_deleted k c retries st)) = db_volume st
   \<and> scheduled (snd (wait_until_volume_is_deleted k c retries st)) = scheduled st"
  by (simp add: wait_until_volume_is_deleted_def Let_def end_delete_keeps emit_def)

lemma wait_volume_absent:
  "cloud_is_volume_created c = Some False \<Longrightarrow>
     fst (wait_until_volume_is_deleted k c retries st) = WF_SUCCESS
   \<and> volume_deleted (db_volume (snd (wait_until_volume_is_deleted k c retries st))) = Some (now st)"
  by (simp add: wait_until_volume_is_deleted_def Let_def end_delete_keeps emit_def save_volume_def)

lemma wait_backup_unknown:
  "cloud_is_backup_created c = None \<Longrightarrow>
     fst (wait_until_backup_is_deleted k c retries st) = WF_RETRY
   \<and> db_volume (snd (wait_until_backup_is_deleted k c retries st)) = db_volume st
   \<and> scheduled (snd (wait_until_backup_is_deleted k c retries st)) = scheduled st"
  by (simp add: wait_until_backup_is_deleted_def Let_def end_delete_keeps emit_def)

lemma wait_backup_absent:
  "cloud_is_backup_created c = Some False \<Longrightarrow>
     fst (wait_until_backup_is_deleted k c retries st) = WF_SUCCESS
   \<and> backup_id (db_volume (snd (wait_until_backup_is_deleted k c retries st))) = None"
  by (simp add: wait_until_backup_is_deleted_def Let_def end_delete_keeps emit_def save_volume_def)

lemma delete_vm_worker_same_branch:
  "delete_vm_worker k (c\<lparr>cloud_is_server_created := None\<rparr>) archive st
     = delete_vm_worker k (c\<lparr>cloud_is_server_created := Some False\<rparr>) archive st"
  by (simp add: delete_vm_worker_def Let_def)

lemma archive_volume_worker_same_branch:
  "archive_volume_worker k (c\<lparr>cloud_is_volume_created := None\<rparr>) st
     = archive_volume_worker k (c\<lparr>cloud_is_volume_created := Some False\<rparr>) st"
  by (simp add: archive_volume_worker_def Let_def)

lemma wait_for_backup_same_branch:
  "wait_for_backup k (c\<lparr>cloud_is_backup_created := None\<rparr>) set_backup_expires backup deadline st
     = wait_for_backup k (c\<lparr>cloud_is_backup_created := Some False\<rparr>) set_backup_expires backup
         deadline st"
  by (simp add: wait_for_backup_def Let_def)

lemma create_volume_same_branch:
  "create_volume py_int set_expires_none (c\<lparr>cloud_is_volume_created := None\<rparr>) image_name
       zone_name st
     = create_volume py_int set_expires_none (c\<lparr>cloud_is_volume_created := Some False\<rparr>)
         image_name zone_name st"
  by (cases "get_volume st") (simp_all add: create_volume_def Let_def)

text \<open>
  C1 as stated fails. \<open>delete_vm_worker\<close> tests \<open>server_exist is None or server_exist is
  False\<close>: with the answer unknown it does exactly what it does with the answer false.
  It does not ask again; it records the instance as gone (\<open>deleted\<close> is set) and
  schedules the shutoff check.
\<close>

theorem delete_vm_worker_unknown_as_absent:
  "delete_vm_worker example_constants (example_cloud\<lparr>cloud_is_server_created := None\<rparr>) False
      example_store
     = delete_vm_worker example_constants (example_cloud\<lparr>cloud_is_server_created := Some False\<rparr>)
         False example_store
   \<and> fst (delete_vm_worker example_constants (example_cloud\<lparr>cloud_is_server_created := None\<rparr>)
            False example_store) = WF_CONTINUE
   \<and> instance_deleted
        (db_instance
          (snd (delete_vm_worker example_constants
                  (example_cloud\<lparr>cloud_is_server_created := None\<rparr>) False example_store)))
       = Some 100
   \<and> scheduled
        (snd (delete_vm_worker example_constants
                (example_cloud\<lparr>cloud_is_server_created := None\<rparr>) False example_store))
       = [(Seconds 10,
           T_check_instance_is_shutoff_and_delete 2
             (T_dispose_volume_once_instance_is_deleted False 5))]"
  by (simp add: delete_vm_worker_def Let_def emit_def save_instance_def instance_error_def
      enqueue_in_def example_cloud_def example_store_def example_constants_def)


text \<open>
  C1, amended. An unknown answer has a branch of its own in the three polling steps
  only. In \<open>_dispose_volume_once_instance_is_deleted\<close>, \<open>_wait_until_volume_is_deleted\<close>
  and \<open>_wait_until_backup_is_deleted\<close>, unknown ends the step with \<open>WF_RETRY\<close>; the step
  schedules nothing and does not mark the resource deleted. The answer false marks it
  (the instance's \<open>deleted\<close>, the volume's \<open>deleted\<close>, the cleared \<open>backup_id\<close>); the
  poll of the server then goes on to the volume (archive or delete), and the poll of
  the volume or backup ends with \<open>WF_SUCCESS\<close>. \<open>delete_vm_worker\<close>,
  \<open>archive_volume_worker\<close>, \<open>wait_for_backup\<close> and \<open>_create_volume\<close> do the same on
  unknown as on false.
\<close>

theorem existence_check_unknown_and_absent:
  "(cloud_is_server_created c = None \<longrightarrow>
      dispose_volume_once_instance_is_deleted k c archive retries st
        = (Inr WF_RETRY, st\<lparr>trace := trace st @ [Cloud_is_server_created]\<rparr>))
   \<and> (cloud_is_server_created c = Some False \<longrightarrow>
      instance_deleted
        (db_instance (snd (dispose_volume_once_instance_is_deleted k c archive retries st)))
        = Some (now st)
      \<and> (archive \<longrightarrow>
           Cloud_is_volume_created
             \<in> set (trace (snd (dispose_volume_once_instance_is_deleted k c archive retries st))))
      \<and> (\<not> archive \<longrightarrow>
           Cloud_delete_volume
             \<in> set (trace (snd (dispose_volume_once_instance_is_deleted k c archive retries st)))))
   \<and> (cloud_is_volume_created c = None \<longrightarrow>
      fst (wait_until_volume_is_deleted k c retries st) = WF_RETRY
      \<and> db_volume (snd (wait_until_volume_is_deleted k c retries st)) = db_volume st
      \<and> scheduled (snd (wait_until_volume_is_deleted k c retries st)) = scheduled st)
   \<and> (cloud_is_volume_created c = Some False \<longrightarrow>
      fst (wait_until_volume_is_deleted k c retries st) = WF_SUCCESS
      \<and> volume_deleted (db_volume (snd (wait_until_volume_is_deleted k c retries st)))
          = Some (now st))
   \<and> (cloud_is_backup_created c = None \<longrightarrow>
      fst (wait_until_backup_is_deleted k c retries st) = WF_RETRY
      \<and> db_volume (snd (wait_until_backup_is_deleted k c retries st)) = db_volume st
      \<and> scheduled (snd (wait_until_backup_is_deleted k c retries st)) = scheduled st)
   \<and> (cloud_is_backup_created c = Some False \<longrightarrow>
      fst (wait_until_backup_is_deleted k c retries st) = WF_SUCCESS
      \<and> backup_id (db_volume (snd (wait_until_backup_is_deleted k c retries st))) = None)
   \<and> delete_vm_worker k (c\<lparr>cloud_is_server_created := None\<rparr>) archive st
       = delete_vm_worker k (c\<lparr>cloud_is_server_created := Some False\<rparr>) archive st
   \<and> archive_volume_worker k (c\<lparr>cloud_is_volume_created := None\<rparr>) st
       = archive_volume_worker k (c\<lparr>cloud_is_volume_created := Some False\<rparr>) st
   \<and> wait_for_backup k (c\<lparr>cloud_is_backup_created := None\<rparr>) set_backup_expires backup
         deadline st
       = wait_for_backup k (c\<lparr>cloud_is_backup_created := Some False\<rparr>) set_backup_expires
           backup deadline st
   \<and> create_volume py_int set_expires_none (c\<lparr>cloud_is_volume_created := None\<rparr>) image_name
         zone_name st
       = create_volume py_int set_expires_none (c\<lparr>cloud_is_volume_created := Some False\<rparr>)
           image_name zone_name st"
  using dispose_unknown [of c k archive retries st] dispose_absent [of c k archive retries st]
    dispose_absent_goes_on [of c archive k retries st]
    wait_volume_unknown [of c k retries st] wait_volume_absent [of c k retries st]
    wait_backup_unknown [of c k retries st] wait_backup_absent [of c k retries st]
    delete_vm_worker_same_branch [of k c archive st]
    archive_volume_worker_same_branch [of k c st]
    wait_for_backup_same_branch [of k c set_backup_expires backup deadline st]
    create_volume_same_branch [of py_int set_expires_none c image_name zone_name st]
  by blast

theorem existence_check_unknown_and_absent_witness:
  "cloud_is_server_created cloud_all_unknown = None
   \<and> cloud_is_volume_created cloud_all_unknown = None
   \<and> cloud_is_backup_created cloud_all_unknown = None
   \<and> dispose_volume_once_instance_is_deleted example_constants cloud_all_unknown False 3
        example_store
       = (Inr WF_RETRY, example_store\<lparr>trace := [Cloud_is_server_created]\<rparr>)
   \<and> fst (wait_until_volume_is_deleted example_constants cloud_all_unknown 3 example_store)
       = WF_RETRY
   \<and> fst (wait_until_backup_is_deleted example_constants cloud_all_unknown 3 example_store)
       = WF_RETRY
   \<and> cloud_is_server_created cloud_all_absent = Some False
   \<and> cloud_is_volume_created cloud_all_absent = Some False
   \<and> cloud_is_backup_created cloud_all_absent = Some False
   \<and> instance_deleted
        (db_instance (snd (dispose_volume_once_instance_is_deleted example_constants
                             cloud_all_absent False 3 example_store))) = Some 100
   \<and> Cloud_delete_volume
       \<in> set (trace (snd (dispose_volume_once_instance_is_deleted example_constants
                              cloud_all_absent False 3 example_store)))
   \<and> fst (wait_until_volume_is_deleted example_constants cloud_all_absent 3 example_store)
       = WF_SUCCESS
   \<and> volume_deleted
        (db_volume (snd (wait_until_volume_is_deleted example_constants cloud_all_absent 3
                           example_store))) = Some 100
   \<and> fst (wait_until_backup_is_deleted example_constants cloud_all_absent 3 example_store)
       = WF_SUCCESS"
  using existence_check_unknown_and_absent
          [of cloud_all_unknown example_constants False 3 example_store]
        existence_check_unknown_and_absent
          [of cloud_all_absent example_constants False 3 example_store]
  by (simp add: cloud_all_unknown_def cloud_all_absent_def example_cloud_def example_store_def)


section \<open>Terminal results and the expiration stage\<close>

















section \<open>Choosing the source volume\<close>

lemma prefix_matches_Inr:
  "prefix_matches p vs = Inr ms \<Longrightarrow> ms = filter (name_matches p) vs"
  by (induction vs arbitrary: ms)
     (auto simp: name_matches_def split: option.splits sum.splits if_splits)

lemma prefix_matches_named:
  "\<forall>v \<in> set vs. cv_name v \<noteq> None \<Longrightarrow> prefix_matches p vs = Inr (filter (name_matches p) vs)"
  by (induction vs) (auto simp: name_matches_def split: option.splits)

lemma prefix_matches_Inl:
  "prefix_matches p vs = Inl e \<Longrightarrow> e = AttributeError \<and> (\<exists>v \<in> set vs. cv_name v = None)"
  by (induction vs) (auto split: option.splits sum.splits)

lemma with_keys_Inr:
  "with_keys py_int ms = Inr kvs \<Longrightarrow>
     map snd kvs = ms \<and> (\<forall>kv \<in> set kvs. build_key py_int (snd kv) = Inr (fst kv))"
  by (induction ms arbitrary: kvs) (auto split: sum.splits)

lemma with_keys_total:
  "\<forall>v \<in> set ms. \<exists>b. build_key py_int v = Inr b \<Longrightarrow> \<exists>kvs. with_keys py_int ms = Inr kvs"
  by (induction ms) (auto split: sum.splits)

lemma sort_key_head:
  assumes "sort_key f xs = y # ys"
  shows "y \<in> set xs \<and> (\<forall>x \<in> set xs. f y \<le> f x)"
proof -
  have s: "sorted (map f (y # ys))" using assms sorted_sort_key [of f xs] by simp
  have m: "set (y # ys) = set xs" using assms set_sort [of f xs] by simp
  show ?thesis using s m by auto
qed

lemma get_source_volume_Inr:
  assumes "get_source_volume py_int image_name res = Inr m"
  shows "m \<in> set (candidates_of res) \<and> name_matches image_name m
       \<and> (\<forall>v \<in> set (candidates_of res). name_matches image_name v \<longrightarrow>
            (\<exists>b bm. build_key py_int v = Inr b \<and> build_key py_int m = Inr bm \<and> b \<le> bm))"
proof -
  let ?cs = "candidates_of res"
  from assms obtain ms where ms: "prefix_matches image_name ?cs = Inr ms"
    by (auto simp: get_source_volume_def candidates_of_def split: sum.splits)
  from assms ms obtain kvs where kvs: "with_keys py_int ms = Inr kvs"
    by (auto simp: get_source_volume_def candidates_of_def split: sum.splits)
  from assms ms kvs obtain kv rest where srt: "sort_key (\<lambda>kv. - fst kv) kvs = kv # rest"
    and m: "m = snd kv"
    by (auto simp: get_source_volume_def candidates_of_def split: list.splits)
  have msf: "ms = filter (name_matches image_name) ?cs" using ms by (rule prefix_matches_Inr)
  have wk: "map snd kvs = ms" "\<forall>kv \<in> set kvs. build_key py_int (snd kv) = Inr (fst kv)"
    using with_keys_Inr [OF kvs] by auto
  have hd: "kv \<in> set kvs" "\<forall>x \<in> set kvs. fst x \<le> fst kv"
    using sort_key_head [OF srt] by auto
  have "m \<in> set ms" using hd(1) wk(1) m by force
  then have 1: "m \<in> set ?cs" "name_matches image_name m" using msf by auto
  have bm: "build_key py_int m = Inr (fst kv)" using wk(2) hd(1) m by auto
  have 2: "\<exists>b bm. build_key py_int v = Inr b \<and> build_key py_int m = Inr bm \<and> b \<le> bm"
    if "v \<in> set ?cs" "name_matches image_name v" for v
  proof -
    have "v \<in> set ms" using that msf by simp
    then obtain x where x: "x \<in> set kvs" "snd x = v" using wk(1) by force
    then have "build_key py_int v = Inr (fst x)" "fst x \<le> fst kv" using wk(2) hd(2) by auto
    then show ?thesis using bm by blast
  qed
  show ?thesis using 1 2 by blast
qed

lemma get_source_volume_no_match:
  assumes "\<forall>v \<in> set (candidates_of res). \<not> name_matches image_name v"
  shows "\<exists>e. get_source_volume py_int image_name res = Inl e"
proof (cases "get_source_volume py_int image_name res")
  case (Inl e) then show ?thesis by blast
next
  case (Inr m)
  then show ?thesis using get_source_volume_Inr [OF Inr] assms by blast
qed

lemma get_source_volume_no_match_named:
  assumes "\<forall>v \<in> set (candidates_of res). \<not> name_matches image_name v"
    and "\<forall>v \<in> set (candidates_of res). cv_name v \<noteq> None"
  shows "get_source_volume py_int image_name res = Inl RuntimeWarning"
proof -
  have "prefix_matches image_name (candidates_of res) = Inr []"
    using prefix_matches_named [OF assms(2), of image_name] assms(1) by (simp add: filter_empty_conv)
  then show ?thesis by (simp add: get_source_volume_def candidates_of_def)
qed

lemma get_source_volume_returns:
  assumes named: "\<forall>v \<in> set (candidates_of res). cv_name v \<noteq> None"
    and keyed: "\<forall>v \<in> set (candidates_of res). name_matches image_name v \<longrightarrow>
                  (\<exists>b. build_key py_int v = Inr b)"
    and some: "\<exists>v \<in> set (candidates_of res). name_matches image_name v"
  shows "\<exists>m. get_source_volume py_int image_name res = Inr m"
proof -
  let ?ms = "filter (name_matches image_name) (candidates_of res)"
  have pm: "prefix_matches image_name (candidates_of res) = Inr ?ms"
    using prefix_matches_named [OF named] .
  obtain kvs where kvs: "with_keys py_int ?ms = Inr kvs"
    using with_keys_total [of ?ms py_int] keyed by auto
  have "map snd kvs = ?ms" using with_keys_Inr [OF kvs] by simp
  moreover have "?ms \<noteq> []" using some by (simp add: filter_empty_conv)
  ultimately have "kvs \<noteq> []" by auto
  then have "sort_key (\<lambda>kv. - fst kv) kvs \<noteq> []"
    by (metis length_0_conv length_sort)
  then obtain kv rest where "sort_key (\<lambda>kv. - fst kv) kvs = kv # rest"
    by (cases "sort_key (\<lambda>kv. - fst kv) kvs") auto
  then show ?thesis using pm kvs by (simp add: get_source_volume_def candidates_of_def)
qed

lemma build_key_number:
  "build_key py_int v = Inr b \<longleftrightarrow> build_number py_int v = Some b"
  by (simp add: build_key_def build_number_def split: option.splits)

lemma build_key_error:
  "build_key py_int v = Inl e \<Longrightarrow> cv_metadata v \<noteq> None \<Longrightarrow>
     e = ValueError \<and> build_number py_int v = None"
  by (cases "cv_metadata v") (auto simp: build_key_def build_number_def split: option.splits)

lemma build_number_None:
  "build_number py_int v = None \<Longrightarrow> \<exists>e. build_key py_int v = Inl e"
  by (auto simp: build_key_def build_number_def split: option.splits)

lemma with_keys_error:
  "\<exists>v \<in> set ms. \<exists>e. build_key py_int v = Inl e \<Longrightarrow> \<exists>e. with_keys py_int ms = Inl e"
proof (induction ms)
  case Nil
  then show ?case by simp
next
  case (Cons a ms)
  show ?case
  proof (cases "build_key py_int a")
    case (Inl e)
    then show ?thesis by simp
  next
    case (Inr n)
    then have "\<exists>v \<in> set ms. \<exists>e. build_key py_int v = Inl e"
      using Cons.prems by auto
    then obtain e where "with_keys py_int ms = Inl e" using Cons.IH by blast
    then show ?thesis using Inr by simp
  qed
qed

lemma with_keys_error_kind:
  "with_keys py_int ms = Inl e \<Longrightarrow> \<exists>v \<in> set ms. build_key py_int v = Inl e"
  by (induction ms) (auto split: sum.splits)

lemma get_source_volume_rejected_build:
  assumes named: "\<forall>v \<in> set (candidates_of res). cv_name v \<noteq> None"
    and meta: "\<forall>v \<in> set (candidates_of res). name_matches image_name v \<longrightarrow> cv_metadata v \<noteq> None"
    and bad: "\<exists>v \<in> set (candidates_of res). name_matches image_name v \<and> build_number py_int v = None"
  shows "get_source_volume py_int image_name res = Inl ValueError"
proof -
  let ?ms = "filter (name_matches image_name) (candidates_of res)"
  have pm: "prefix_matches image_name (candidates_of res) = Inr ?ms"
    using prefix_matches_named [OF named] .
  from bad obtain v where v: "v \<in> set ?ms" "build_number py_int v = None" by auto
  then have "\<exists>v \<in> set ?ms. \<exists>e. build_key py_int v = Inl e"
    using build_number_None by blast
  then obtain e where e: "with_keys py_int ?ms = Inl e"
    using with_keys_error by blast
  then obtain u where u: "u \<in> set ?ms" "build_key py_int u = Inl e"
    using with_keys_error_kind by blast
  then have "cv_metadata u \<noteq> None" using meta by auto
  then have "e = ValueError" using build_key_error u(2) by blast
  then show ?thesis using pm e by (simp add: get_source_volume_def candidates_of_def)
qed

text \<open>
  C7 as stated fails. A candidate whose name starts with the image name and whose build
  is \<open>12.5\<close>: \<open>int\<close> raises \<open>ValueError\<close>, and no candidate is returned. Four good
  candidates and one without a name: \<open>startswith\<close> on \<open>None\<close> raises \<open>AttributeError\<close>,
  though candidates match.
\<close>

theorem get_source_volume_raises_though_candidates_match:
  "get_source_volume py_int_decimal ''ubuntu'' (Some [candidate_fractional_build])
     = Inl ValueError
   \<and> cv_name candidate_fractional_build = Some ''ubuntu-22 [v12.5]''
   \<and> prefix ''ubuntu'' ''ubuntu-22 [v12.5]''
   \<and> cv_metadata candidate_fractional_build = Some [''nectar_build'' \<mapsto> ''12.5'']
   \<and> get_source_volume py_int_decimal ''ubuntu'' (Some (example_candidates @ [candidate_unnamed]))
       = Inl AttributeError
   \<and> name_matches ''ubuntu'' (hd example_candidates)"
  by (simp add: get_source_volume_def candidate_fractional_build_def build_key_def
      py_int_decimal_def digit_value_def example_candidates_def candidate_unnamed_def
      name_matches_def)

text \<open>
  C7, amended. Whenever \<open>_get_source_volume\<close> returns, it returns one of the candidates,
  its name starts with the image name, and its build number (\<open>int\<close> of the metadata
  entry \<open>nectar_build\<close>, 0 when the entry is absent) is at least that of every matching
  candidate. When no candidate matches, it raises; \<open>RuntimeWarning\<close> when every candidate
  has a name. It returns when every candidate has a name, some candidate matches, and
  every matching candidate has a build number. When every candidate has a name and
  every matching candidate has metadata, but the build of some matching candidate is
  one that \<open>int\<close> rejects, it raises \<open>ValueError\<close>.
\<close>

theorem get_source_volume_selects_latest:
  "(\<forall>m. get_source_volume py_int image_name res = Inr m \<longrightarrow>
        m \<in> set (candidates_of res) \<and> name_matches image_name m
      \<and> (\<forall>v \<in> set (candidates_of res). name_matches image_name v \<longrightarrow>
            (\<exists>b bm. build_number py_int v = Some b \<and> build_number py_int m = Some bm \<and> b \<le> bm)))
   \<and> ((\<forall>v \<in> set (candidates_of res). \<not> name_matches image_name v) \<longrightarrow>
        (\<exists>e. get_source_volume py_int image_name res = Inl e))
   \<and> ((\<forall>v \<in> set (candidates_of res). \<not> name_matches image_name v)
        \<and> (\<forall>v \<in> set (candidates_of res). cv_name v \<noteq> None) \<longrightarrow>
        get_source_volume py_int image_name res = Inl RuntimeWarning)
   \<and> ((\<forall>v \<in> set (candidates_of res). cv_name v \<noteq> None)
        \<and> (\<forall>v \<in> set (candidates_of res). name_matches image_name v \<longrightarrow>
              (\<exists>b. build_number py_int v = Some b))
        \<and> (\<exists>v \<in> set (candidates_of res). name_matches image_name v) \<longrightarrow>
        (\<exists>m. get_source_volume py_int image_name res = Inr m))
   \<and> ((\<forall>v \<in> set (candidates_of res). cv_name v \<noteq> None)
        \<and> (\<forall>v \<in> set (candidates_of res). name_matches image_name v \<longrightarrow> cv_metadata v \<noteq> None)
        \<and> (\<exists>v \<in> set (candidates_of res).
              name_matches image_name v \<and> build_number py_int v = None) \<longrightarrow>
        get_source_volume py_int image_name res = Inl ValueError)"
proof -
  have A: "\<forall>m. get_source_volume py_int image_name res = Inr m \<longrightarrow>
        m \<in> set (candidates_of res) \<and> name_matches image_name m
      \<and> (\<forall>v \<in> set (candidates_of res). name_matches image_name v \<longrightarrow>
            (\<exists>b bm. build_number py_int v = Some b \<and> build_number py_int m = Some bm \<and> b \<le> bm))"
    using get_source_volume_Inr [of py_int image_name res]
    by (simp add: build_key_number)
  have D: "(\<forall>v \<in> set (candidates_of res). cv_name v \<noteq> None)
        \<and> (\<forall>v \<in> set (candidates_of res). name_matches image_name v \<longrightarrow>
              (\<exists>b. build_number py_int v = Some b))
        \<and> (\<exists>v \<in> set (candidates_of res). name_matches image_name v) \<longrightarrow>
        (\<exists>m. get_source_volume py_int image_name res = Inr m)"
    using get_source_volume_returns [of res image_name py_int]
    by (simp add: build_key_number)
  show ?thesis
    using A D
      get_source_volume_no_match [of res image_name py_int]
      get_source_volume_no_match_named [of res image_name py_int]
      get_source_volume_rejected_build [of res image_name py_int]
    by blast
qed

theorem get_source_volume_selects_latest_witness:
  "list_all (\<lambda>v. cv_name v \<noteq> None) example_candidates
   \<and> list_all (\<lambda>v. name_matches ''ubuntu'' v \<longrightarrow> build_number py_int_decimal v \<noteq> None)
        example_candidates
   \<and> get_source_volume py_int_decimal ''ubuntu'' (Some example_candidates)
       = Inr \<lparr>cv_id = ''v3'', cv_name = Some ''ubuntu-22 [v12]'',
              cv_metadata = Some [''nectar_build'' \<mapsto> ''12'']\<rparr>
   \<and> name_matches ''ubuntu'' \<lparr>cv_id = ''v3'', cv_name = Some ''ubuntu-22 [v12]'',
                               cv_metadata = Some [''nectar_build'' \<mapsto> ''12'']\<rparr>
   \<and> build_number py_int_decimal \<lparr>cv_id = ''v3'', cv_name = Some ''ubuntu-22 [v12]'',
                                cv_metadata = Some [''nectar_build'' \<mapsto> ''12'']\<rparr> = Some 12
   \<and> list_all (\<lambda>v. \<not> name_matches ''debian'' v) example_candidates
   \<and> get_source_volume py_int_decimal ''debian'' (Some example_candidates) = Inl RuntimeWarning
   \<and> name_matches ''ubuntu'' candidate_fractional_build
   \<and> build_number py_int_decimal candidate_fractional_build = None
   \<and> get_source_volume py_int_decimal ''ubuntu''
        (Some (example_candidates @ [candidate_fractional_build])) = Inl ValueError"
  using get_source_volume_selects_latest [of py_int_decimal "''ubuntu''" "Some example_candidates"]
        get_source_volume_selects_latest [of py_int_decimal "''debian''" "Some example_candidates"]
        get_source_volume_selects_latest
          [of py_int_decimal "''ubuntu''" "Some (example_candidates @ [candidate_fractional_build])"]
  by (simp add: get_source_volume_def example_candidates_def candidate_fractional_build_def
      py_int_decimal_def digit_value_def build_key_def build_number_def
      name_matches_def candidates_of_def)



section \<open>Resizing to the flavor the server has\<close>

text \<open>
  C8. \<open>_resize_vm\<close> with the flavor the remote server already has returns the message
  "Instance ... already has flavor ... Skipping the resize." and makes no remote call
  but the one that reads the server: no resize call, and no confirmation is scheduled.
\<close>

theorem resize_vm_same_flavor:
  "resize_vm instance flavor flavor resize_result w
     = (''Instance '' @ instance @ '' already has flavor '' @ flavor @ ''. Skipping the resize.'',
        w\<lparr>remote_calls := remote_calls w @ [Servers_get instance]\<rparr>)
   \<and> confirmations_scheduled (snd (resize_vm instance flavor flavor resize_result w))
       = confirmations_scheduled w
   \<and> Servers_resize instance flavor
       \<notin> set (remote_calls (snd (resize_vm instance flavor flavor resize_result w)))
           - set (remote_calls w)"
  by (simp add: resize_vm_def)

end
